theory Spec2Isabelle
  imports Main "HOL-Library.Sublist"
begin

section \<open>JavaScript values, strings and the wire text\<close>

text \<open>
  The chrome script \<^verbatim>\<open>assets/ui.js\<close> talks to the native core over one bridge: it posts
  JSON text with \<^verbatim>\<open>send\<close> and receives message objects through \<^verbatim>\<open>window.__owl_receive\<close>.
  Payloads handed to \<^verbatim>\<open>send\<close> are JavaScript values; \<open>JUndefined\<close> stands for an argument
  that was left out, \<open>JBigInt\<close> for a value \<^verbatim>\<open>JSON.stringify\<close> refuses with a TypeError.
  Numbers are the integers the script handles (tab ids); they print in decimal. Strings
  are the UTF-8 bytes of the script's strings: for well-formed strings, one contains
  another as a byte sequence exactly when it does as a sequence of code units.
\<close>

datatype jsval =
    JUndefined
  | JNull
  | JBool bool
  | JNum int
  | JBigInt int
  | JStr string
  | JArr "jsval list"
  | JObj "(string \<times> jsval) list"

datatype error = TypeError | HostError

text \<open>\<^verbatim>\<open>String.prototype.includes\<close> and \<^verbatim>\<open>trim\<close> on byte strings; the white space is
  blank, tab, line feed, vertical tab, form feed and carriage return.
  \<^verbatim>\<open>String.prototype.toLowerCase\<close> is the lowering of the host: the Unicode default case
  conversion over the character database the engine ships. Those tables are no part of the
  repository, so the function is not defined here: it is the field \<open>toLowerCase\<close> of the
  world, and an argument of the functions that call it.\<close>

definition str_includes :: "string \<Rightarrow> string \<Rightarrow> bool" where
  "str_includes hay needle = sublist needle hay"

definition is_space :: "char \<Rightarrow> bool" where
  "is_space c = ((of_char c :: nat) \<in> {32, 9, 10, 11, 12, 13})"

definition trim :: "string \<Rightarrow> string" where
  "trim s = rev (dropWhile is_space (rev (dropWhile is_space s)))"

text \<open>\<^verbatim>\<open>JSON.stringify\<close>: a BigInt anywhere in the value raises a TypeError; otherwise the
  text is produced with object fields in insertion order, fields whose value is
  \<^verbatim>\<open>undefined\<close> left out, and \<^verbatim>\<open>undefined\<close> array elements printed as \<^verbatim>\<open>null\<close>.\<close>

fun serialisable :: "jsval \<Rightarrow> bool" where
  "serialisable (JBigInt n) = False"
| "serialisable (JArr vs) = list_all serialisable vs"
| "serialisable (JObj fs) = list_all (\<lambda>kv. serialisable (snd kv)) fs"
| "serialisable v = True"

definition digit_char :: "nat \<Rightarrow> char" where
  "digit_char d = ''0123456789abcdef'' ! d"

function digits10 :: "nat \<Rightarrow> string" where
  "digits10 n =
     (if n < 10 then [digit_char n]
      else digits10 (n div 10) @ [digit_char (n mod 10)])"
  by pat_completeness auto
termination
  by (relation "measure id") auto

definition number_text :: "int \<Rightarrow> string" where
  "number_text i = (if i < 0 then CHR ''-'' # digits10 (nat (- i)) else digits10 (nat i))"

definition dq :: char where
  "dq = CHR 0x22"

definition escape_char :: "char \<Rightarrow> string" where
  "escape_char c =
     (let n = (of_char c :: nat) in
      if c = dq then [CHR 0x5C, dq]
      else if n = 0x5C then [CHR 0x5C, CHR 0x5C]
      else if n = 8 then [CHR 0x5C, CHR ''b'']
      else if n = 12 then [CHR 0x5C, CHR ''f'']
      else if n = 10 then [CHR 0x5C, CHR ''n'']
      else if n = 13 then [CHR 0x5C, CHR ''r'']
      else if n = 9 then [CHR 0x5C, CHR ''t'']
      else if n < 32 then [CHR 0x5C, CHR ''u'', CHR ''0'', CHR ''0'', digit_char (n div 16), digit_char (n mod 16)]
      else [c])"

definition quote :: "string \<Rightarrow> string" where
  "quote s = dq # concat (map escape_char s) @ [dq]"

fun join_comma :: "string list \<Rightarrow> string" where
  "join_comma [] = []"
| "join_comma [s] = s"
| "join_comma (s # t # ts) = s @ CHR '','' # join_comma (t # ts)"

fun json_text :: "jsval \<Rightarrow> string" where
  "json_text JUndefined = ''null''"
| "json_text JNull = ''null''"
| "json_text (JBool b) = (if b then ''true'' else ''false'')"
| "json_text (JNum i) = number_text i"
| "json_text (JBigInt i) = number_text i"
| "json_text (JStr s) = quote s"
| "json_text (JArr vs) = CHR ''['' # join_comma (map json_text vs) @ '']''"
| "json_text (JObj fs) =
     CHR ''{'' #
       join_comma (map (\<lambda>(k, v). quote k @ CHR '':'' # json_text v)
                       (filter (\<lambda>(k, v). v \<noteq> JUndefined) fs)) @ ''}''"

definition JSON_stringify :: "jsval \<Rightarrow> error + string" where
  "JSON_stringify v = (if serialisable v then Inr (json_text v) else Inl TypeError)"

text \<open>The first argument of \<^verbatim>\<open>send\<close>, the message type, is a string at every call site, but
  the function takes whatever it is given: a value as above (\<open>Plain\<close>), or a Symbol with its
  description. \<open>str\<close> is the string argument of the call sites.\<close>

datatype argument = Plain jsval | Symbol string

abbreviation str :: "string \<Rightarrow> argument" where
  "str s \<equiv> Plain (JStr s)"

text \<open>The conversion to a string that a template literal applies to \<^verbatim>\<open>${type}\<close>: it raises a
  TypeError for a Symbol; an array prints its elements separated by commas, with
  \<^verbatim>\<open>undefined\<close> and \<^verbatim>\<open>null\<close> elements empty; an object prints as \<^verbatim>\<open>[object Object]\<close>.\<close>

fun string_text :: "jsval \<Rightarrow> string" where
  "string_text JUndefined = ''undefined''"
| "string_text JNull = ''null''"
| "string_text (JBool b) = (if b then ''true'' else ''false'')"
| "string_text (JNum i) = number_text i"
| "string_text (JBigInt i) = number_text i"
| "string_text (JStr s) = s"
| "string_text (JArr vs) =
     join_comma (map (\<lambda>v. if v = JUndefined \<or> v = JNull then [] else string_text v) vs)"
| "string_text (JObj fs) = ''[object Object]''"

fun ToString :: "argument \<Rightarrow> error + string" where
  "ToString (Plain v) = Inr (string_text v)"
| "ToString (Symbol description) = Inl TypeError"

section \<open>The data the script keeps\<close>

text \<open>A \<^verbatim>\<open>TabNode\<close> of the bridge schema. Tab ids are numbers; \<^verbatim>\<open>favicon_uri\<close> may be
  \<^verbatim>\<open>null\<close>; a node without a \<^verbatim>\<open>children\<close> field is a node with no children.\<close>

datatype tabnode =
  TabNode (node_id: nat) (title: string) (url: string) (favicon_uri: "string option")
    (is_group: bool) (is_pinned: bool) (is_muted: bool) (is_suspended: bool)
    (is_active: bool) (is_expanded: bool) (children: "tabnode list")

text \<open>A sidebar row as \<^verbatim>\<open>buildRow\<close> fills it in: the CSS depth, the \<^verbatim>\<open>data-*\<close> attributes,
  the ARIA attributes, the tooltip, the icon source and the visible title.\<close>

record row =
  data_id :: nat
  depth :: nat
  group_class :: bool
  data_hasChildren :: bool
  data_pinned :: bool
  data_muted :: bool
  data_suspended :: bool
  aria_selected :: bool
  tabIndex :: int
  aria_expanded :: "bool option"
  data_fullTitle :: string
  title_attr :: "string option"
  icon_src :: "string option"
  data_favicon :: string
  title_text :: string

text \<open>The object \<^verbatim>\<open>state\<close>. \<open>lastTabs\<close> is \<open>None\<close> when a snapshot without a
  \<^verbatim>\<open>tabs\<close> field left \<^verbatim>\<open>undefined\<close> there.\<close>

record ui_state =
  flatTabs :: "nat list"
  activeTabId :: "nat option"
  sidebarCollapsed :: bool
  paletteIndex :: int
  peekEnabled :: bool
  peeking :: bool
  defaultFavicon :: "string option"
  tabMap :: "nat \<rightharpoonup> tabnode"
  tabQuery :: string
  lastTabs :: "tabnode list option"
  lastActive :: "nat option"

record menu_state =
  menu_open :: bool
  menu_tabId :: "nat option"

text \<open>The part of the document the script reads and writes. An element that
  \<^verbatim>\<open>getElementById\<close> did not find is \<open>None\<close>. Focus, scroll positions and the pixel
  position of the context menu are not part of the model.\<close>

record reload_control =
  reload_text :: string
  reload_mode :: "string option"
  reload_aria :: "string option"

record menu_element =
  menu_is_open :: bool
  menu_aria_hidden :: "bool option"
  pin_text :: "string option"
  mute_text :: "string option"
  unload_text :: "string option"

record dom =
  tabs_rows :: "row list option"
  address_value :: "string option"
  navBack_disabled :: "bool option"
  navForward_disabled :: "bool option"
  navReload :: "reload_control option"
  sidebarToggle_aria :: "string option option"
  brandIcon_src :: "string option option"
  paletteInput_value :: "string option"
  paletteResults_items :: "(string \<times> bool) list option"
  tabMenu :: "menu_element option"
  body_is_loading :: bool
  body_sidebar_collapsed :: bool
  body_palette_open :: bool

datatype console_entry = Warn string jsval | Failure string error

text \<open>Everything a handler can touch. \<open>bridge\<close> is
  \<^verbatim>\<open>window.webkit?.messageHandlers?.owl\<close>, read once when the script loads: \<open>None\<close> when
  it is missing, otherwise the native \<^verbatim>\<open>postMessage\<close>, which either takes the text or
  raises. \<open>delivered\<close> lists the texts the native side has taken, oldest first.
  \<open>toLowerCase\<close> is \<^verbatim>\<open>String.prototype.toLowerCase\<close> of the host.\<close>

record world =
  state :: ui_state
  menuState :: menu_state
  elements :: dom
  console :: "console_entry list"
  bridge :: "(string \<Rightarrow> error option) option"
  delivered :: "string list"
  toLowerCase :: "string \<Rightarrow> string"

text \<open>A call either returns or raises, and in both cases leaves a world behind.\<close>

datatype outcome = Returned world | Threw error world

definition and_then :: "outcome \<Rightarrow> (world \<Rightarrow> outcome) \<Rightarrow> outcome" where
  "and_then r f = (case r of Returned w \<Rightarrow> f w | Threw e w \<Rightarrow> Threw e w)"

definition try_catch :: "outcome \<Rightarrow> (error \<Rightarrow> world \<Rightarrow> outcome) \<Rightarrow> outcome" where
  "try_catch r handler = (case r of Returned w \<Rightarrow> Returned w | Threw e w \<Rightarrow> handler e w)"

definition world_of :: "outcome \<Rightarrow> world" where
  "world_of r = (case r of Returned w \<Rightarrow> w | Threw e w \<Rightarrow> w)"


section \<open>Outbound: \<^verbatim>\<open>send\<close>\<close>

definition console_warn :: "string \<Rightarrow> jsval \<Rightarrow> world \<Rightarrow> world" where
  "console_warn msg v w = w\<lparr>console := console w @ [Warn msg v]\<rparr>"

definition console_error :: "string \<Rightarrow> error \<Rightarrow> world \<Rightarrow> world" where
  "console_error msg e w = w\<lparr>console := console w @ [Failure msg e]\<rparr>"

text \<open>The object \<^verbatim>\<open>{ type, payload }\<close> as \<^verbatim>\<open>JSON.stringify\<close> sees it: a field that holds a
  Symbol is left out of the text, like one that holds \<^verbatim>\<open>undefined\<close>.\<close>

fun envelope :: "argument \<Rightarrow> jsval \<Rightarrow> jsval" where
  "envelope (Plain type) payload = JObj [(''type'', type), (''payload'', payload)]"
| "envelope (Symbol description) payload = JObj [(''payload'', payload)]"

text \<open>\<^verbatim>\<open>console.warn\<close> and \<^verbatim>\<open>console.error\<close> with a template literal as message: the
  literal is evaluated first, and when \<^verbatim>\<open>${type}\<close> raises, the call does not take place.\<close>

definition warn_template :: "string \<Rightarrow> argument \<Rightarrow> jsval \<Rightarrow> world \<Rightarrow> outcome" where
  "warn_template intro type v w =
     (case ToString type of
        Inl e \<Rightarrow> Threw e w
      | Inr name \<Rightarrow> Returned (console_warn (intro @ name) v w))"

definition error_template :: "string \<Rightarrow> argument \<Rightarrow> error \<Rightarrow> world \<Rightarrow> outcome" where
  "error_template intro type error w =
     (case ToString type of
        Inl e \<Rightarrow> Threw e w
      | Inr name \<Rightarrow> Returned (console_error (intro @ name) error w))"

definition postMessage :: "(string \<Rightarrow> error option) \<Rightarrow> error + string \<Rightarrow> world \<Rightarrow> outcome" where
  "postMessage native arg w =
     (case arg of
        Inl e \<Rightarrow> Threw e w
      | Inr text \<Rightarrow>
          (case native text of
             Some e \<Rightarrow> Threw e w
           | None \<Rightarrow> Returned (w\<lparr>delivered := delivered w @ [text]\<rparr>)))"

text \<open>The default parameter \<^verbatim>\<open>payload = {}\<close>: it replaces an argument that is left out.\<close>

definition default_payload :: "jsval \<Rightarrow> jsval" where
  "default_payload payload = (if payload = JUndefined then JObj [] else payload)"

definition send :: "argument \<Rightarrow> jsval \<Rightarrow> world \<Rightarrow> outcome" where
  "send type payload0 w =
     (let payload = default_payload payload0 in
      case bridge w of
        None \<Rightarrow> warn_template ''Bridge not available. Attempted to send: '' type payload w
      | Some native \<Rightarrow>
          try_catch (postMessage native (JSON_stringify (envelope type payload)) w)
            (\<lambda>error w'. error_template ''Failed to send message: '' type error w'))"

section \<open>Rendering the sidebar\<close>

definition truthy_str :: "string option \<Rightarrow> bool" where
  "truthy_str v = (case v of None \<Rightarrow> False | Some s \<Rightarrow> s \<noteq> [])"

definition truthy_id :: "nat option \<Rightarrow> bool" where
  "truthy_id v = (case v of None \<Rightarrow> False | Some n \<Rightarrow> n \<noteq> 0)"

definition buildRow :: "ui_state \<Rightarrow> tabnode \<Rightarrow> nat \<Rightarrow> row" where
  "buildRow s node d =
     (let fullTitle = (if title node \<noteq> [] then title node
                       else if url node \<noteq> [] then url node else ''Tab'');
          favicon = (if truthy_str (favicon_uri node) then the (favicon_uri node)
                     else if truthy_str (defaultFavicon s) then the (defaultFavicon s) else [])
      in \<lparr> data_id = node_id node,
           depth = d,
           group_class = is_group node,
           data_hasChildren = (children node \<noteq> []),
           data_pinned = is_pinned node,
           data_muted = is_muted node,
           data_suspended = is_suspended node,
           aria_selected = is_active node,
           tabIndex = (if is_active node then 0 else - 1),
           aria_expanded = (if children node \<noteq> [] then Some (is_expanded node) else None),
           data_fullTitle = fullTitle,
           title_attr = (if \<not> sidebarCollapsed s then Some fullTitle else None),
           icon_src = (if favicon \<noteq> [] then Some favicon else None),
           data_favicon = (if truthy_str (favicon_uri node) then the (favicon_uri node) else []),
           title_text = (if title node \<noteq> [] then title node else ''Untitled'') \<rparr>)"

lemma children_smaller [termination_simp]:
  "size_list size (children node) < Suc (size node + k)"
  by (cases node) simp

lemma children_double: "2 * size_list size (children node) < Suc (2 * size node + k)"
  by (cases node) simp

text \<open>\<^verbatim>\<open>renderNodes(nodes, depth, fragment)\<close>: the fragment and \<^verbatim>\<open>state\<close> are threaded through
  the loop; each node appends its row, pushes its id on \<^verbatim>\<open>state.flatTabs\<close>, stores itself
  in \<^verbatim>\<open>state.tabMap\<close> and, when it has children and is expanded, recurses one level deeper
  before the loop goes on.\<close>

function renderNodes :: "tabnode list \<Rightarrow> nat \<Rightarrow> row list \<times> ui_state \<Rightarrow> row list \<times> ui_state" where
  "renderNodes [] d acc = acc"
| "renderNodes (node # nodes) d (fragment, s) =
     (let fragment1 = fragment @ [buildRow s node d];
          s1 = s\<lparr>flatTabs := flatTabs s @ [node_id node]\<rparr>;
          s2 = s1\<lparr>tabMap := (tabMap s1)(node_id node \<mapsto> node)\<rparr>
      in renderNodes nodes d
           (if children node \<noteq> [] \<and> is_expanded node
            then renderNodes (children node) (d + 1) (fragment1, s2)
            else (fragment1, s2)))"
  by pat_completeness auto
termination
  by (relation "measure (\<lambda>(nodes, d, acc). size_list size nodes)")
     (auto simp: children_smaller children_double)

definition syncCollapsedTabTitles :: "bool \<Rightarrow> world \<Rightarrow> world" where
  "syncCollapsedTabTitles collapsed w =
     (case tabs_rows (elements w) of
        None \<Rightarrow> w
      | Some rows \<Rightarrow>
          w\<lparr>elements := (elements w)\<lparr>tabs_rows :=
               Some (map (\<lambda>r. if collapsed then r\<lparr>title_attr := None\<rparr>
                                else if data_fullTitle r \<noteq> [] then r\<lparr>title_attr := Some (data_fullTitle r)\<rparr>
                                else r) rows)\<rparr>\<rparr>)"

text \<open>\<^verbatim>\<open>renderTabs(nodes)\<close>. The argument is \<open>None\<close> when the caller passes \<^verbatim>\<open>undefined\<close>
  (a stored tree that was never set): the two resets happen, then the \<^verbatim>\<open>for ... of\<close> of
  \<^verbatim>\<open>renderNodes\<close> raises.\<close>

definition renderTabs :: "tabnode list option \<Rightarrow> world \<Rightarrow> outcome" where
  "renderTabs nodes w =
     (let w1 = w\<lparr>state := (state w)\<lparr>flatTabs := [], tabMap := Map.empty\<rparr>\<rparr> in
      case nodes of
        None \<Rightarrow> Threw TypeError w1
      | Some ns \<Rightarrow>
          (let (fragment, s2) = renderNodes ns 0 ([], state w1);
               w2 = w1\<lparr>state := s2\<rparr>;
               w3 = (case tabs_rows (elements w2) of
                       None \<Rightarrow> w2
                     | Some old \<Rightarrow> w2\<lparr>elements := (elements w2)\<lparr>tabs_rows := Some fragment\<rparr>\<rparr>)
           in Returned (syncCollapsedTabTitles (sidebarCollapsed (state w3)) w3)))"

fun findActive :: "tabnode list \<Rightarrow> nat \<Rightarrow> tabnode option" where
  "findActive [] i = None"
| "findActive (node # nodes) i =
     (if node_id node = i then Some node
      else (case findActive (children node) i of
              Some found \<Rightarrow> Some found
            | None \<Rightarrow> findActive nodes i))"

section \<open>Filtering and favicon updates\<close>

text \<open>\<^verbatim>\<open>filterNodes(nodes, query)\<close>: \<open>filterLoop\<close> is its \<^verbatim>\<open>for\<close> loop with the array
  \<^verbatim>\<open>filtered\<close> as accumulator. A kept node is a copy (\<^verbatim>\<open>{...node, children, is_expanded: true}\<close>).
  The first argument is the host's \<^verbatim>\<open>toLowerCase\<close>.\<close>

function filterNodes :: "(string \<Rightarrow> string) \<Rightarrow> tabnode list \<Rightarrow> string \<Rightarrow> tabnode list"
  and filterLoop :: "(string \<Rightarrow> string) \<Rightarrow> tabnode list \<Rightarrow> string \<Rightarrow> tabnode list \<Rightarrow> tabnode list" where
  "filterNodes lower nodes query = (if query = [] then nodes else filterLoop lower nodes query [])"
| "filterLoop lower [] query filtered = filtered"
| "filterLoop lower (node # nodes) query filtered =
     (let needle = lower query;
          title' = lower (title node);
          url' = lower (url node);
          matches = (str_includes title' needle \<or> str_includes url' needle);
          children' = (if children node \<noteq> [] then filterNodes lower (children node) query else [])
      in filterLoop lower nodes query
           (if matches \<or> children' \<noteq> []
            then filtered @ [TabNode (node_id node) (title node) (url node) (favicon_uri node)
                               (is_group node) (is_pinned node) (is_muted node) (is_suspended node)
                               (is_active node) True children']
            else filtered))"
  by pat_completeness auto
termination
  by (relation "measure (\<lambda>x. case x of
          Inl (lower, nodes, query) \<Rightarrow> 2 * size_list size nodes + 1
        | Inr (lower, nodes, query, filtered) \<Rightarrow> 2 * size_list size nodes)")
     (auto simp: children_smaller children_double)

text \<open>What \<^verbatim>\<open>filterNodes(state.lastTabs, state.tabQuery)\<close> does when the stored tree may be
  \<^verbatim>\<open>undefined\<close>: an empty query hands \<^verbatim>\<open>undefined\<close> back, any other query raises at the loop.\<close>

definition filterStored ::
  "(string \<Rightarrow> string) \<Rightarrow> tabnode list option \<Rightarrow> string \<Rightarrow> error + tabnode list option" where
  "filterStored lower stored query =
     (case stored of
        Some nodes \<Rightarrow> Inr (Some (filterNodes lower nodes query))
      | None \<Rightarrow> (if query = [] then Inr None else Inl TypeError))"

text \<open>\<^verbatim>\<open>updateTreeFavicon(nodes, ids, faviconUri)\<close> writes into the stored nodes; the model
  returns the nodes after the writes.\<close>

fun updateTreeFavicon :: "tabnode list \<Rightarrow> nat set \<Rightarrow> string option \<Rightarrow> tabnode list" where
  "updateTreeFavicon [] ids faviconUri = []"
| "updateTreeFavicon (node # nodes) ids faviconUri =
     TabNode (node_id node) (title node) (url node)
       (if node_id node \<in> ids then faviconUri else favicon_uri node)
       (is_group node) (is_pinned node) (is_muted node) (is_suspended node)
       (is_active node) (is_expanded node)
       (if children node \<noteq> [] then updateTreeFavicon (children node) ids faviconUri
        else children node)
     # updateTreeFavicon nodes ids faviconUri"

section \<open>Inbound: the state handlers\<close>

text \<open>A payload object of an inbound message, read through the schema of the bridge: each
  field, when present, has the type the schema gives it; a field that is missing (or
  \<^verbatim>\<open>null\<close>) is \<open>None\<close>.\<close>

record payload =
  tabs :: "tabnode list option"
  active :: "nat option"
  can_go_back :: "bool option"
  can_go_forward :: "bool option"
  is_loading :: "bool option"
  default_favicon :: "string option"
  ids :: "nat list option"
  favicon_uri_update :: "string option"
  collapsed :: "bool option"

text \<open>An inbound message: \<^verbatim>\<open>null\<close>/\<^verbatim>\<open>undefined\<close>, or an object with an optional string
  \<^verbatim>\<open>type\<close> and an optional \<^verbatim>\<open>payload\<close> object.\<close>

datatype message = NoMessage | Envelope (msg_type: "string option") (msg_payload: "payload option")

definition closeTabMenu :: "world \<Rightarrow> world" where
  "closeTabMenu w =
     (case tabMenu (elements w) of
        None \<Rightarrow> w
      | Some m \<Rightarrow>
          w\<lparr>elements := (elements w)\<lparr>tabMenu := Some (m\<lparr>menu_is_open := False, menu_aria_hidden := Some True\<rparr>)\<rparr>,
            menuState := \<lparr>menu_open = False, menu_tabId = None\<rparr>\<rparr>)"

definition applyState :: "payload option \<Rightarrow> world \<Rightarrow> outcome" where
  "applyState newState w =
     (case newState of
        None \<Rightarrow> Threw TypeError w
      | Some p \<Rightarrow>
          (let w1 = w\<lparr>state := (state w)\<lparr>activeTabId := active p, lastTabs := tabs p,
                                          lastActive := active p\<rparr>\<rparr>
           in case filterStored (toLowerCase w1) (lastTabs (state w1)) (tabQuery (state w1)) of
                Inl e \<Rightarrow> Threw e w1
              | Inr filtered \<Rightarrow>
                  and_then (renderTabs filtered w1) (\<lambda>w2.
                    (let w3 = closeTabMenu w2;
                         activeNode =
                           (if truthy_id (lastActive (state w3))
                            then (case lastTabs (state w3) of
                                    Some nodes \<Rightarrow> findActive nodes (the (lastActive (state w3)))
                                  | None \<Rightarrow> None)
                            else None)
                     in Returned
                          (case (activeNode, address_value (elements w3)) of
                             (Some node, Some old) \<Rightarrow>
                               w3\<lparr>elements := (elements w3)\<lparr>address_value := Some (url node)\<rparr>\<rparr>
                           | _ \<Rightarrow> w3)))))"

text \<open>\<^verbatim>\<open>classList.toggle(name, force)\<close>: a boolean \<^verbatim>\<open>force\<close> sets the class, an
  \<^verbatim>\<open>undefined\<close> one flips it.\<close>

definition classList_toggle :: "bool \<Rightarrow> bool option \<Rightarrow> bool" where
  "classList_toggle present force = (case force of Some b \<Rightarrow> b | None \<Rightarrow> \<not> present)"

definition applyNavState :: "payload option \<Rightarrow> world \<Rightarrow> outcome" where
  "applyNavState nav w =
     (case nav of
        None \<Rightarrow> Threw TypeError w
      | Some p \<Rightarrow>
          (let e = elements w;
               e1 = (case navBack_disabled e of
                       None \<Rightarrow> e
                     | Some old \<Rightarrow> e\<lparr>navBack_disabled := Some (\<not> (can_go_back p = Some True))\<rparr>);
               e2 = (case navForward_disabled e1 of
                       None \<Rightarrow> e1
                     | Some old \<Rightarrow> e1\<lparr>navForward_disabled := Some (\<not> (can_go_forward p = Some True))\<rparr>);
               e3 = e2\<lparr>body_is_loading := classList_toggle (body_is_loading e2) (is_loading p)\<rparr>;
               e4 = (case navReload e3 of
                       None \<Rightarrow> e3
                     | Some c \<Rightarrow>
                         (if is_loading p = Some True
                          then e3\<lparr>navReload := Some \<lparr>reload_text = ''Stop'', reload_mode = Some ''stop'',
                                                      reload_aria = Some ''Stop''\<rparr>\<rparr>
                          else e3\<lparr>navReload := Some \<lparr>reload_text = ''Reload'', reload_mode = Some ''reload'',
                                                      reload_aria = Some ''Reload''\<rparr>\<rparr>))
           in Returned (w\<lparr>elements := e4\<rparr>)))"

definition applyAssets :: "payload option \<Rightarrow> world \<Rightarrow> world" where
  "applyAssets pl w =
     (case pl of
        None \<Rightarrow> w
      | Some p \<Rightarrow>
          (if \<not> truthy_str (default_favicon p) then w
           else
             (let w1 = w\<lparr>state := (state w)\<lparr>defaultFavicon := default_favicon p\<rparr>\<rparr>;
                  w2 = (case brandIcon_src (elements w1) of
                          None \<Rightarrow> w1
                        | Some old \<Rightarrow>
                            w1\<lparr>elements := (elements w1)\<lparr>brandIcon_src := Some (defaultFavicon (state w1))\<rparr>\<rparr>)
              in case tabs_rows (elements w2) of
                   None \<Rightarrow> w2
                 | Some rows \<Rightarrow>
                     w2\<lparr>elements := (elements w2)\<lparr>tabs_rows :=
                          Some (map (\<lambda>r. if data_favicon r = [] \<and> truthy_str (defaultFavicon (state w2))
                                           then r\<lparr>icon_src := defaultFavicon (state w2)\<rparr> else r) rows)\<rparr>\<rparr>)))"

text \<open>The body of the \<^verbatim>\<open>forEach\<close> in \<^verbatim>\<open>applyFaviconUpdate\<close>, for one id: the entry of
  \<^verbatim>\<open>state.tabMap\<close> gets the new favicon, and so does the first row with that \<^verbatim>\<open>data-id\<close>.
  The entries of \<^verbatim>\<open>tabMap\<close> are the rendered node objects. With an empty query these are
  the stored nodes themselves, which \<^verbatim>\<open>updateTreeFavicon\<close> has already given the same value
  (an entry's key is its node's id); with a query they are copies made by \<^verbatim>\<open>filterNodes\<close>.
  Either way the write through \<^verbatim>\<open>tabMap\<close> leaves the stored tree as
  \<^verbatim>\<open>updateTreeFavicon\<close> left it, so the model keeps the entries as values.\<close>

fun update_first_row :: "nat \<Rightarrow> (row \<Rightarrow> row) \<Rightarrow> row list \<Rightarrow> row list" where
  "update_first_row i f [] = []"
| "update_first_row i f (r # rs) = (if data_id r = i then f r # rs else r # update_first_row i f rs)"

definition favicon_forEach_body :: "payload \<Rightarrow> nat \<Rightarrow> world \<Rightarrow> world" where
  "favicon_forEach_body p i w =
     (let uri = (if truthy_str (favicon_uri_update p) then favicon_uri_update p else None);
          w1 = (case tabMap (state w) i of
                  None \<Rightarrow> w
                | Some node \<Rightarrow>
                    w\<lparr>state := (state w)\<lparr>tabMap := (tabMap (state w))(i \<mapsto>
                         TabNode (node_id node) (title node) (url node) uri
                           (is_group node) (is_pinned node) (is_muted node) (is_suspended node)
                           (is_active node) (is_expanded node) (children node))\<rparr>\<rparr>)
      in case tabs_rows (elements w1) of
           None \<Rightarrow> w1
         | Some rows \<Rightarrow>
             w1\<lparr>elements := (elements w1)\<lparr>tabs_rows := Some (update_first_row i
                  (\<lambda>r. let r1 = r\<lparr>data_favicon := (if truthy_str (favicon_uri_update p)
                                                       then the (favicon_uri_update p) else [])\<rparr>;
                             fallback = (if truthy_str (favicon_uri_update p) then the (favicon_uri_update p)
                                         else if truthy_str (defaultFavicon (state w1))
                                         then the (defaultFavicon (state w1)) else [])
                         in if fallback \<noteq> [] then r1\<lparr>icon_src := Some fallback\<rparr> else r1)
                  rows)\<rparr>\<rparr>)"

definition applyFaviconUpdate :: "payload option \<Rightarrow> world \<Rightarrow> outcome" where
  "applyFaviconUpdate pl w =
     (case pl of
        None \<Rightarrow> Returned w
      | Some p \<Rightarrow>
          (case ids p of
             None \<Rightarrow> Returned w
           | Some [] \<Rightarrow> Returned w
           | Some idl \<Rightarrow>
               (case lastTabs (state w) of
                  None \<Rightarrow> Threw TypeError w
                | Some nodes \<Rightarrow>
                    (let w1 = w\<lparr>state := (state w)\<lparr>lastTabs :=
                                 Some (updateTreeFavicon nodes (set idl)
                                   (if truthy_str (favicon_uri_update p) then favicon_uri_update p else None))\<rparr>\<rparr>
                     in Returned (fold (favicon_forEach_body p) idl w1)))))"

definition applySidebarState :: "bool \<Rightarrow> world \<Rightarrow> world" where
  "applySidebarState c w =
     (let w1 = w\<lparr>state := (state w)\<lparr>sidebarCollapsed := c\<rparr>\<rparr>;
          e1 = (elements w1)\<lparr>body_sidebar_collapsed := c\<rparr>;
          e2 = (case sidebarToggle_aria e1 of
                  None \<Rightarrow> e1
                | Some old \<Rightarrow> e1\<lparr>sidebarToggle_aria :=
                                   Some (Some (if c then ''Expand sidebar'' else ''Collapse sidebar''))\<rparr>)
      in syncCollapsedTabTitles c (w1\<lparr>elements := e2\<rparr>))"

section \<open>Inbound: \<^verbatim>\<open>window.__owl_receive\<close>\<close>

text \<open>\<^verbatim>\<open>messageHandlers\<close> is an object literal with five own keys. Like every object literal
  it inherits from \<^verbatim>\<open>Object.prototype\<close>, so \<^verbatim>\<open>messageHandlers[key]\<close> finds, for a key
  that is not its own, the property of that name on \<^verbatim>\<open>Object.prototype\<close> when there is
  one: the accessor \<^verbatim>\<open>__proto__\<close> yields the prototype object, the other names yield
  built-in functions. \<^verbatim>\<open>?.()\<close> skips the call only for \<^verbatim>\<open>undefined\<close> and \<^verbatim>\<open>null\<close>; calling
  an object that is not a function raises a TypeError, and so do \<^verbatim>\<open>__defineGetter__\<close> and
  \<^verbatim>\<open>__defineSetter__\<close> when called without a function argument. The other built-ins
  return when called without arguments and touch nothing.\<close>

datatype handler = ApplyState | ApplyNavState | ApplyAssets | ApplyFaviconUpdate | ApplySidebarState

datatype slot = Own handler | InheritedFunction bool | InheritedObject | Undefined

definition object_prototype_get :: "string \<Rightarrow> slot" where
  "object_prototype_get key =
     (if key = ''__proto__'' then InheritedObject
      else if key \<in> set [''__defineGetter__'', ''__defineSetter__''] then InheritedFunction True
      else if key \<in> set [''constructor'', ''hasOwnProperty'', ''isPrototypeOf'',
                          ''propertyIsEnumerable'', ''toLocaleString'', ''toString'', ''valueOf'',
                          ''__lookupGetter__'', ''__lookupSetter__''] then InheritedFunction False
      else Undefined)"

definition messageHandlers :: "string \<Rightarrow> slot" where
  "messageHandlers key =
     (if key = ''state.tabs'' then Own ApplyState
      else if key = ''state.nav'' then Own ApplyNavState
      else if key = ''state.assets'' then Own ApplyAssets
      else if key = ''state.favicon'' then Own ApplyFaviconUpdate
      else if key = ''state.sidebar'' then Own ApplySidebarState
      else object_prototype_get key)"

definition run_handler :: "handler \<Rightarrow> payload option \<Rightarrow> world \<Rightarrow> outcome" where
  "run_handler h pl w =
     (case h of
        ApplyState \<Rightarrow> applyState pl w
      | ApplyNavState \<Rightarrow> applyNavState pl w
      | ApplyAssets \<Rightarrow> Returned (applyAssets pl w)
      | ApplyFaviconUpdate \<Rightarrow> applyFaviconUpdate pl w
      | ApplySidebarState \<Rightarrow>
          Returned (applySidebarState (case pl of None \<Rightarrow> False | Some p \<Rightarrow> collapsed p = Some True) w))"

definition owl_receive :: "message \<Rightarrow> world \<Rightarrow> outcome" where
  "owl_receive message w =
     (case message of
        NoMessage \<Rightarrow> Returned w
      | Envelope ty pl \<Rightarrow>
          (if \<not> truthy_str ty then Returned w
           else (case messageHandlers (the ty) of
                   Own h \<Rightarrow> run_handler h pl w
                 | InheritedFunction throws \<Rightarrow> (if throws then Threw TypeError w else Returned w)
                 | InheritedObject \<Rightarrow> Threw TypeError w
                 | Undefined \<Rightarrow> Returned w)))"

section \<open>Outbound: the event listeners\<close>

definition setSidebarCollapsed :: "bool \<Rightarrow> world \<Rightarrow> outcome" where
  "setSidebarCollapsed c w =
     send (str ''ui.sidebar.toggle'') (JObj [(''collapsed'', JBool c)]) (applySidebarState c w)"

definition navigateFromAddress :: "world \<Rightarrow> outcome" where
  "navigateFromAddress w =
     (case address_value (elements w) of
        None \<Rightarrow> Returned w
      | Some v \<Rightarrow>
          (let value = trim v in
           if value \<noteq> [] then send (str ''nav.go'') (JObj [(''url'', JStr value)]) w else Returned w))"

text \<open>The entries of \<^verbatim>\<open>COMMANDS\<close>, in the order of the array.\<close>

datatype command = NewTab | Back | Forward | Reload | Home | ToggleSidebar | FocusAddress

definition COMMANDS :: "command list" where
  "COMMANDS = [NewTab, Back, Forward, Reload, Home, ToggleSidebar, FocusAddress]"

fun label :: "command \<Rightarrow> string" where
  "label NewTab = ''New Tab''"
| "label Back = ''Go Back''"
| "label Forward = ''Go Forward''"
| "label Reload = ''Reload''"
| "label Home = ''Go Home''"
| "label ToggleSidebar = ''Toggle Sidebar''"
| "label FocusAddress = ''Focus Address Bar''"

fun run :: "command \<Rightarrow> world \<Rightarrow> outcome" where
  "run NewTab w = send (str ''tab.create'') JUndefined w"
| "run Back w = send (str ''nav.back'') JUndefined w"
| "run Forward w = send (str ''nav.forward'') JUndefined w"
| "run Reload w = send (str ''nav.reload'') JUndefined w"
| "run Home w = send (str ''nav.home'') JUndefined w"
| "run ToggleSidebar w = setSidebarCollapsed (\<not> sidebarCollapsed (state w)) w"
| "run FocusAddress w = Returned w"

definition renderPaletteResults :: "string \<Rightarrow> world \<Rightarrow> command list \<times> world" where
  "renderPaletteResults query w =
     (let needle = toLowerCase w (trim query);
          results = filter (\<lambda>c. str_includes (toLowerCase w (label c)) needle) COMMANDS
      in case paletteResults_items (elements w) of
           None \<Rightarrow> (results, w)
         | Some old \<Rightarrow>
             (results,
              w\<lparr>elements := (elements w)\<lparr>paletteResults_items :=
                   Some (map (\<lambda>(index, cmd). (label cmd, int index = paletteIndex (state w)))
                             (enumerate 0 results))\<rparr>\<rparr>))"

definition openPalette :: "world \<Rightarrow> world" where
  "openPalette w =
     (let w1 = w\<lparr>elements := (elements w)\<lparr>body_palette_open := True\<rparr>\<rparr> in
      case paletteInput_value (elements w1) of
        None \<Rightarrow> w1
      | Some old \<Rightarrow>
          snd (renderPaletteResults []
                 (w1\<lparr>elements := (elements w1)\<lparr>paletteInput_value := Some []\<rparr>,
                     state := (state w1)\<lparr>paletteIndex := 0\<rparr>\<rparr>)))"

definition closePalette :: "world \<Rightarrow> world" where
  "closePalette w = w\<lparr>elements := (elements w)\<lparr>body_palette_open := False\<rparr>\<rparr>"

definition openTabMenu :: "nat \<Rightarrow> world \<Rightarrow> world" where
  "openTabMenu i w =
     (case tabMenu (elements w) of
        None \<Rightarrow> w
      | Some m \<Rightarrow>
          (case tabMap (state w) i of
             None \<Rightarrow> w
           | Some node \<Rightarrow>
               (let m1 = m\<lparr>pin_text := map_option (\<lambda>t. if is_pinned node then ''Unpin'' else ''Pin'') (pin_text m),
                            mute_text := map_option (\<lambda>t. if is_muted node then ''Unmute'' else ''Mute'') (mute_text m),
                            unload_text := map_option (\<lambda>t. if is_suspended node then ''Reload'' else ''Unload'')
                                             (unload_text m)\<rparr>;
                    w1 = closeTabMenu (w\<lparr>elements := (elements w)\<lparr>tabMenu := Some m1\<rparr>\<rparr>);
                    w2 = w1\<lparr>menuState := \<lparr>menu_open = True, menu_tabId = Some i\<rparr>\<rparr>
                in case tabMenu (elements w2) of
                     None \<Rightarrow> w2
                   | Some m2 \<Rightarrow>
                       w2\<lparr>elements := (elements w2)\<lparr>tabMenu :=
                            Some (m2\<lparr>menu_is_open := True, menu_aria_hidden := Some False\<rparr>)\<rparr>\<rparr>)))"

definition setupEventHandlers :: "world \<Rightarrow> world" where
  "setupEventHandlers w =
     (case navReload (elements w) of
        None \<Rightarrow> w
      | Some c \<Rightarrow>
          w\<lparr>elements := (elements w)\<lparr>navReload :=
               Some \<lparr>reload_text = ''Reload'', reload_mode = Some ''reload'', reload_aria = Some ''Reload''\<rparr>\<rparr>\<rparr>)"

text \<open>The value of \<^verbatim>\<open>event.key\<close>: the named keys the listeners test for, a printable
  character, or any other named key.\<close>

datatype key = Enter | Escape | ArrowDown | ArrowUp | F10 | ContextMenu | Character char | OtherKey

text \<open>\<^verbatim>\<open>Array.prototype.indexOf\<close> on \<^verbatim>\<open>state.flatTabs\<close>: the first position, or \<open>-1\<close>.\<close>

fun indexOf :: "nat list \<Rightarrow> nat option \<Rightarrow> int" where
  "indexOf [] x = - 1"
| "indexOf (y # ys) x =
     (if x = Some y then 0 else (let r = indexOf ys x in if r = - 1 then - 1 else r + 1))"

text \<open>One constructor per listener the script registers, with what the listener reads from
  its event. Firing a listener presupposes the element it was registered on; for the
  elements the model tracks (the reload control, the palette input, the context menu) a
  missing element means that no listener exists and nothing happens. The two peek
  listeners exist only when \<^verbatim>\<open>state.peekEnabled\<close> is set, which no code does. In
  \<open>TabMenuClick\<close> the argument is the \<^verbatim>\<open>data-action\<close> of the closest action button of the
  click target, in \<open>TabMenuKeydown\<close> that of the focused button, whose \<^verbatim>\<open>click()\<close> the
  Enter key triggers. An event that bubbles runs several listeners one after the other (a
  click on a row also reaches the window listener); each of them is a constructor of its
  own. What a listener does to focus, to the default action of its event and, in the
  animation frame after \<^verbatim>\<open>openTabMenu\<close>, to the pixel position of the menu is left out. \<open>RowClick\<close>, \<open>ExpanderClick\<close>, \<open>CloseClick\<close>, \<open>RowContextMenu\<close> and
  \<open>RowKeydown\<close> are the listeners \<^verbatim>\<open>buildRow\<close> attaches to the row of the given node id;
  \<open>PaletteItemClick\<close> is the one \<^verbatim>\<open>renderPaletteResults\<close> attaches to an item.\<close>

datatype listener =
    DOMContentLoaded
  | AddressKeydown key
  | GoClick
  | NewTabClick
  | HomeClick
  | NavBackClick
  | NavForwardClick
  | NavReloadClick
  | SidebarToggleClick
  | TabSearchInput string
  | PeekKeydown bool
  | PeekKeyup bool
  | PaletteBackdropClick
  | PaletteInputInput string
  | PaletteInputKeydown key
  | PaletteItemClick command
  | WindowKeydown bool key
  | TabMenuClick "string option"
  | TabMenuKeydown key "string option"
  | WindowClick bool
  | WindowContextMenu bool
  | TabsKeydown key
  | RowClick nat
  | ExpanderClick nat
  | CloseClick nat
  | RowContextMenu nat
  | RowKeydown nat bool key

definition id_payload :: "nat \<Rightarrow> jsval" where
  "id_payload i = JObj [(''id'', JNum (int i))]"

definition tabMenu_click :: "string option \<Rightarrow> world \<Rightarrow> outcome" where
  "tabMenu_click button w =
     (case (button, menu_tabId (menuState w)) of
        (Some action, Some tabId) \<Rightarrow>
          and_then (if action = ''pin'' then send (str ''tab.pin'') (id_payload tabId) w else Returned w) (\<lambda>w1.
          and_then (if action = ''mute'' then send (str ''tab.mute'') (id_payload tabId) w1 else Returned w1) (\<lambda>w2.
          and_then (if action = ''unload'' then send (str ''tab.unload'') (id_payload tabId) w2 else Returned w2) (\<lambda>w3.
          Returned (closeTabMenu w3))))
      | _ \<Rightarrow> Returned w)"

definition palette_keydown :: "key \<Rightarrow> world \<Rightarrow> outcome" where
  "palette_keydown k w =
     (case paletteInput_value (elements w) of
        None \<Rightarrow> Returned w
      | Some v \<Rightarrow>
          (let (results, w1) = renderPaletteResults v w in
           case k of
             ArrowDown \<Rightarrow>
               Returned (snd (renderPaletteResults v
                 (w1\<lparr>state := (state w1)\<lparr>paletteIndex :=
                       min (paletteIndex (state w1) + 1) (int (length results) - 1)\<rparr>\<rparr>)))
           | ArrowUp \<Rightarrow>
               Returned (snd (renderPaletteResults v
                 (w1\<lparr>state := (state w1)\<lparr>paletteIndex := max (paletteIndex (state w1) - 1) 0\<rparr>\<rparr>)))
           | Enter \<Rightarrow>
               (if 0 \<le> paletteIndex (state w1) \<and> paletteIndex (state w1) < int (length results)
                then and_then (run (results ! nat (paletteIndex (state w1))) w1)
                       (\<lambda>w2. Returned (closePalette w2))
                else (let trimmedValue = trim v in
                      if trimmedValue \<noteq> []
                      then and_then (send (str ''nav.go'') (JObj [(''url'', JStr trimmedValue)]) w1)
                             (\<lambda>w2. Returned (closePalette w2))
                      else Returned w1))
           | Escape \<Rightarrow> Returned (closePalette w1)
           | _ \<Rightarrow> Returned w1))"

definition tabs_keydown :: "key \<Rightarrow> world \<Rightarrow> outcome" where
  "tabs_keydown k w =
     (let flat = flatTabs (state w) in
      if flat = [] then Returned w
      else if k = ArrowDown \<or> k = ArrowUp then
        (let currentIndex = indexOf flat (activeTabId (state w));
             delta = (if k = ArrowDown then 1 else - 1);
             nextIndex = (if currentIndex = - 1 then 0
                          else min (max (currentIndex + delta) 0) (int (length flat) - 1))
         in send (str ''tab.select'') (id_payload (flat ! nat nextIndex)) w)
      else Returned w)"

definition window_keydown :: "bool \<Rightarrow> key \<Rightarrow> world \<Rightarrow> world" where
  "window_keydown modKey k w =
     (let w1 = (case k of
                  Character c \<Rightarrow>
                    (if modKey \<and> toLowerCase w [c] \<in> set [''k'', ''p''] then openPalette w else w)
                | _ \<Rightarrow> w)
      in if k = Escape then
           (let w2 = (if body_palette_open (elements w1) then closePalette w1 else w1)
            in if menu_open (menuState w2) then closeTabMenu w2 else w2)
         else w1)"

fun fire :: "listener \<Rightarrow> world \<Rightarrow> outcome" where
  "fire DOMContentLoaded w = send (str ''ui.ready'') JUndefined (setupEventHandlers w)"
| "fire (AddressKeydown k) w = (if k = Enter then navigateFromAddress w else Returned w)"
| "fire GoClick w = navigateFromAddress w"
| "fire NewTabClick w = send (str ''tab.create'') JUndefined w"
| "fire HomeClick w = send (str ''nav.home'') JUndefined w"
| "fire NavBackClick w = send (str ''nav.back'') JUndefined w"
| "fire NavForwardClick w = send (str ''nav.forward'') JUndefined w"
| "fire NavReloadClick w =
     (case navReload (elements w) of
        None \<Rightarrow> Returned w
      | Some c \<Rightarrow>
          (let mode = reload_mode c in
           send (str (if mode = Some ''stop'' then ''nav.stop'' else ''nav.reload'')) JUndefined w))"
| "fire SidebarToggleClick w = setSidebarCollapsed (\<not> sidebarCollapsed (state w)) w"
| "fire (TabSearchInput v) w =
     (let w1 = w\<lparr>state := (state w)\<lparr>tabQuery := trim v\<rparr>\<rparr> in
      case filterStored (toLowerCase w1) (lastTabs (state w1)) (tabQuery (state w1)) of
        Inl e \<Rightarrow> Threw e w1
      | Inr filtered \<Rightarrow> renderTabs filtered w1)"
| "fire (PeekKeydown altKey) w =
     (if peekEnabled (state w) \<and> altKey \<and> sidebarCollapsed (state w) \<and> \<not> peeking (state w)
      then setSidebarCollapsed False (w\<lparr>state := (state w)\<lparr>peeking := True\<rparr>\<rparr>)
      else Returned w)"
| "fire (PeekKeyup altKey) w =
     (if peekEnabled (state w) \<and> peeking (state w) \<and> \<not> altKey
      then setSidebarCollapsed True (w\<lparr>state := (state w)\<lparr>peeking := False\<rparr>\<rparr>)
      else Returned w)"
| "fire PaletteBackdropClick w = Returned (closePalette w)"
| "fire (PaletteInputInput v) w =
     Returned (snd (renderPaletteResults v (w\<lparr>state := (state w)\<lparr>paletteIndex := 0\<rparr>\<rparr>)))"
| "fire (PaletteInputKeydown k) w = palette_keydown k w"
| "fire (PaletteItemClick cmd) w = and_then (run cmd w) (\<lambda>w1. Returned (closePalette w1))"
| "fire (WindowKeydown modKey k) w = Returned (window_keydown modKey k w)"
| "fire (TabMenuClick button) w =
     (if tabMenu (elements w) = None then Returned w else tabMenu_click button w)"
| "fire (TabMenuKeydown k focused) w =
     (if tabMenu (elements w) = None then Returned w
      else if k = Enter \<and> truthy_str focused then tabMenu_click focused w else Returned w)"
| "fire (WindowClick inside) w =
     (if \<not> menu_open (menuState w) then Returned w
      else if \<not> inside then Returned (closeTabMenu w) else Returned w)"
| "fire (WindowContextMenu inside) w =
     (if menu_open (menuState w) \<and> \<not> inside then Returned (closeTabMenu w) else Returned w)"
| "fire (TabsKeydown k) w = tabs_keydown k w"
| "fire (RowClick i) w = send (str ''tab.select'') (id_payload i) w"
| "fire (ExpanderClick i) w = send (str ''tab.toggle'') (id_payload i) w"
| "fire (CloseClick i) w = send (str ''tab.close'') (id_payload i) w"
| "fire (RowContextMenu i) w = Returned (openTabMenu i w)"
| "fire (RowKeydown i shiftKey k) w =
     (let w1 = (if shiftKey \<and> k = F10 then openTabMenu i w else w)
      in Returned (if k = ContextMenu then openTabMenu i w1 else w1))"

text \<open>The command types of the bridge interface, as the specification lists them.\<close>

definition inbound_command_types :: "string list" where
  "inbound_command_types =
     [''ui.ready'', ''ui.sidebar.toggle'', ''nav.go'', ''nav.back'', ''nav.forward'',
      ''nav.reload'', ''nav.stop'', ''nav.home'', ''tab.create'', ''tab.close'', ''tab.select'',
      ''tab.toggle'', ''tab.pin'', ''tab.mute'', ''tab.unload'']"

section \<open>The script at load time\<close>

text \<open>The initial \<^verbatim>\<open>state\<close> and \<^verbatim>\<open>menuState\<close> objects, and a document in which every
  element the script looks up exists (no rows yet, controls enabled, menu closed).\<close>

definition initial_state :: ui_state where
  "initial_state =
     \<lparr> flatTabs = [], activeTabId = None, sidebarCollapsed = False, paletteIndex = 0,
       peekEnabled = False, peeking = False, defaultFavicon = None, tabMap = Map.empty,
       tabQuery = [], lastTabs = Some [], lastActive = None \<rparr>"

definition initial_menuState :: menu_state where
  "initial_menuState = \<lparr> menu_open = False, menu_tabId = None \<rparr>"

definition full_document :: dom where
  "full_document =
     \<lparr> tabs_rows = Some [], address_value = Some [], navBack_disabled = Some False,
       navForward_disabled = Some False,
       navReload = Some \<lparr>reload_text = [], reload_mode = None, reload_aria = None\<rparr>,
       sidebarToggle_aria = Some None, brandIcon_src = Some None, paletteInput_value = Some [],
       paletteResults_items = Some [],
       tabMenu = Some \<lparr>menu_is_open = False, menu_aria_hidden = Some True, pin_text = Some ''Pin'',
                        mute_text = Some ''Mute'', unload_text = Some ''Unload''\<rparr>,
       body_is_loading = False, body_sidebar_collapsed = False, body_palette_open = False \<rparr>"

text \<open>A lowering for the examples. It agrees with \<^verbatim>\<open>String.prototype.toLowerCase\<close> on the
  strings the examples lower: ASCII strings, and the two Greek strings \<open>capital_alpha_sigma\<close>
  (U+0391 U+03A3) and \<open>capital_sigma\<close> (U+03A3), given by their UTF-8 bytes. A capital sigma
  that ends a word lowers to the final small sigma U+03C2 (the rule \<^verbatim>\<open>Final_Sigma\<close> of
  Unicode's special casing), a capital sigma on its own to the small sigma U+03C3.\<close>

definition ascii_lower :: "char \<Rightarrow> char" where
  "ascii_lower c =
     (case map_of (zip ''ABCDEFGHIJKLMNOPQRSTUVWXYZ'' ''abcdefghijklmnopqrstuvwxyz'') c of
        Some l \<Rightarrow> l
      | None \<Rightarrow> c)"

definition capital_alpha_sigma :: string where
  "capital_alpha_sigma = [CHR 0xCE, CHR 0x91, CHR 0xCE, CHR 0xA3]"

definition capital_sigma :: string where
  "capital_sigma = [CHR 0xCE, CHR 0xA3]"

definition small_alpha_final_sigma :: string where
  "small_alpha_final_sigma = [CHR 0xCE, CHR 0xB1, CHR 0xCF, CHR 0x82]"

definition small_sigma :: string where
  "small_sigma = [CHR 0xCF, CHR 0x83]"

definition example_toLowerCase :: "string \<Rightarrow> string" where
  "example_toLowerCase s =
     (if s = capital_alpha_sigma then small_alpha_final_sigma
      else if s = capital_sigma then small_sigma
      else map ascii_lower s)"

definition loaded :: "(string \<Rightarrow> error option) option \<Rightarrow> world" where
  "loaded b =
     \<lparr> state = initial_state, menuState = initial_menuState, elements = full_document,
       console = [], bridge = b, delivered = [], toLowerCase = example_toLowerCase \<rparr>"

definition accepting :: "string \<Rightarrow> error option" where
  "accepting text = None"

definition leaf :: "nat \<Rightarrow> string \<Rightarrow> string \<Rightarrow> tabnode" where
  "leaf i t u = TabNode i t u None False False False False False False []"

definition folder :: "nat \<Rightarrow> string \<Rightarrow> bool \<Rightarrow> tabnode list \<Rightarrow> tabnode" where
  "folder i t expanded cs = TabNode i t [] None True False False False False expanded cs"

section \<open>Notions of the specification\<close>

text \<open>A malformed inbound message, in the client: \<^verbatim>\<open>null\<close>/\<^verbatim>\<open>undefined\<close>, or an object
  without a \<^verbatim>\<open>type\<close> field.\<close>

definition malformed :: "message \<Rightarrow> bool" where
  "malformed m = (case m of NoMessage \<Rightarrow> True | Envelope ty pl \<Rightarrow> ty = None)"

definition handled_types :: "string list" where
  "handled_types = [''state.tabs'', ''state.nav'', ''state.assets'', ''state.favicon'', ''state.sidebar'']"

text \<open>A delivered text is a command text when it is the JSON text of an envelope whose
  type is one of the enumerated command types. \<open>only_commands base ds\<close>: the list \<open>ds\<close> of
  delivered texts extends \<open>base\<close> by command texts only.\<close>

definition command_text :: "string \<Rightarrow> bool" where
  "command_text text =
     (\<exists>t \<in> set inbound_command_types. \<exists>pl. JSON_stringify (envelope (str t) pl) = Inr text)"

definition only_commands :: "string list \<Rightarrow> string list \<Rightarrow> bool" where
  "only_commands base ds = (\<exists>new. ds = base @ new \<and> (\<forall>text \<in> set new. command_text text))"

text \<open>The tree in which every tab whose id is in \<open>idset\<close> has the favicon \<open>uri\<close> and
  everything else is as before.\<close>

fun set_favicon :: "nat set \<Rightarrow> string option \<Rightarrow> tabnode \<Rightarrow> tabnode" where
  "set_favicon idset uri (TabNode i t u f g p m s a e cs) =
     TabNode i t u (if i \<in> idset then uri else f) g p m s a e (map (set_favicon idset uri) cs)"

text \<open>Depth-first preorder of a forest, children in their order: every node with its depth
  and with the flag that all its ancestors are expanded. \<open>shown\<close> restricts the traversal to
  the nodes with that flag.\<close>

fun preorder :: "nat \<Rightarrow> bool \<Rightarrow> tabnode list \<Rightarrow> (tabnode \<times> nat \<times> bool) list" where
  "preorder d ancestors_expanded [] = []"
| "preorder d ancestors_expanded (node # nodes) =
     (node, d, ancestors_expanded)
       # preorder (d + 1) (ancestors_expanded \<and> is_expanded node) (children node)
       @ preorder d ancestors_expanded nodes"

definition shown_from :: "nat \<Rightarrow> tabnode list \<Rightarrow> (tabnode \<times> nat) list" where
  "shown_from d nodes =
     map (\<lambda>(node, d', v). (node, d')) (filter (\<lambda>(node, d', v). v) (preorder d True nodes))"

definition shown :: "tabnode list \<Rightarrow> (tabnode \<times> nat) list" where
  "shown nodes = shown_from 0 nodes"

text \<open>A node matches a query when its lowered title or its lowered url contains the lowered
  query; a node is kept when it matches or one of its children is kept (so: when it or one
  of its descendants matches). \<open>lower\<close> is the lowering in use.\<close>

definition matches :: "(string \<Rightarrow> string) \<Rightarrow> string \<Rightarrow> tabnode \<Rightarrow> bool" where
  "matches lower query node =
     (str_includes (lower (title node)) (lower query)
      \<or> str_includes (lower (url node)) (lower query))"

fun kept :: "(string \<Rightarrow> string) \<Rightarrow> string \<Rightarrow> tabnode \<Rightarrow> bool" where
  "kept lower query (TabNode i t u f g p m s a e cs) =
     (matches lower query (TabNode i t u f g p m s a e cs) \<or> list_ex (kept lower query) cs)"

fun subtree :: "tabnode \<Rightarrow> tabnode list" where
  "subtree (TabNode i t u f g p m s a e cs) =
     TabNode i t u f g p m s a e cs # concat (map subtree cs)"

text \<open>The effect of rendering the list \<open>vis\<close> of (node, depth) pairs on a fragment and a
  state: one row per pair, the ids pushed on \<^verbatim>\<open>flatTabs\<close>, the nodes stored in \<^verbatim>\<open>tabMap\<close>.\<close>

definition rendered :: "ui_state \<Rightarrow> (tabnode \<times> nat) list \<Rightarrow> row list \<times> ui_state \<Rightarrow> row list \<times> ui_state" where
  "rendered s0 vis acc =
     (fst acc @ map (\<lambda>(node, d). buildRow s0 node d) vis,
      (snd acc)\<lparr>flatTabs := flatTabs (snd acc) @ map (\<lambda>(node, d). node_id node) vis,
                tabMap := fold (\<lambda>(node, d) m. m(node_id node \<mapsto> node)) vis (tabMap (snd acc))\<rparr>)"

text \<open>A kept node as \<^verbatim>\<open>filterNodes\<close> returns it: expanded, with its children replaced by
  their filtered list.\<close>

definition pruned :: "(string \<Rightarrow> string) \<Rightarrow> string \<Rightarrow> tabnode \<Rightarrow> tabnode" where
  "pruned lower query node =
     TabNode (node_id node) (title node) (url node) (favicon_uri node) (is_group node)
       (is_pinned node) (is_muted node) (is_suspended node) (is_active node) True
       (filterNodes lower (children node) query)"

text \<open>Sample payloads and a sample forest: a collapsed folder 1 with the tab 2 inside, an
  expanded folder 3 with the tabs 4 and 5 inside, and the tab 6.\<close>

definition no_fields :: payload where
  "no_fields =
     \<lparr> tabs = None, active = None, can_go_back = None, can_go_forward = None, is_loading = None,
       default_favicon = None, ids = None, favicon_uri_update = None, collapsed = None \<rparr>"

definition sample_forest :: "tabnode list" where
  "sample_forest =
     [folder 1 ''Work'' False [leaf 2 ''Mail'' ''https://mail.example''],
      folder 3 ''Docs'' True [leaf 4 ''Isabelle'' ''https://isabelle.in.tum.de'',
                              leaf 5 ''Rust Book'' ''https://doc.rust-lang.org''],
      leaf 6 ''News'' ''https://news.example'']"

section \<open>The outbound envelope\<close>

lemma json_text_envelope:
  "payload \<noteq> JUndefined \<Longrightarrow>
   json_text (envelope (str type) payload) =
     ''{'' @ quote ''type'' @ '':'' @ quote type @ '','' @ quote ''payload'' @ '':'' @ json_text payload @ ''}''"
  by simp

lemma default_payload_defined: "default_payload payload \<noteq> JUndefined"
  by (simp add: default_payload_def)

lemma serialisable_envelope:
  "serialisable (envelope (str type) (default_payload payload)) = serialisable payload"
  by (simp add: default_payload_def)

text \<open>
  C1 (as the code has it). A call \<^verbatim>\<open>send(type, payload)\<close> with the bridge present, a payload
  that serialises and a native side that takes the text delivers exactly one text, the
  JSON object with the two fields \<^verbatim>\<open>type\<close> and \<^verbatim>\<open>payload\<close>, in this order and with the
  payload defaulting to \<^verbatim>\<open>{}\<close>. There is no third field: the envelope carries no
  \<^verbatim>\<open>schema_version\<close>.
\<close>

theorem send_posts_type_and_payload:
  assumes "bridge w = Some native"
    and "serialisable payload"
    and "native (json_text (envelope (str type) (default_payload payload))) = None"
  shows "send (str type) payload w =
           Returned (w\<lparr>delivered := delivered w @
             [''{'' @ quote ''type'' @ '':'' @ quote type @ '','' @ quote ''payload'' @ '':''
                @ json_text (default_payload payload) @ ''}'']\<rparr>)"
proof -
  have "send (str type) payload w =
          Returned (w\<lparr>delivered := delivered w @ [json_text (envelope (str type) (default_payload payload))]\<rparr>)"
    using assms
    by (simp add: send_def postMessage_def JSON_stringify_def try_catch_def serialisable_envelope
        del: envelope.simps)
  then show ?thesis
    by (simp add: json_text_envelope default_payload_defined)
qed

theorem send_posts_type_and_payload_witness:
  "delivered (world_of (send (str ''tab.select'') (JObj [(''id'', JNum 7)]) (loaded (Some accepting)))) =
     [''{'' @ quote ''type'' @ '':'' @ quote ''tab.select'' @ '','' @ quote ''payload'' @ '':{''
        @ quote ''id'' @ '':7}}'']"
  using send_posts_type_and_payload
    [of "loaded (Some accepting)" accepting "JObj [(''id'', JNum 7)]" "''tab.select''"]
  by (simp add: loaded_def accepting_def default_payload_def world_of_def number_text_def
      digit_char_def)

text \<open>
  C1 as stated fails: the text that \<^verbatim>\<open>send("ui.ready")\<close> delivers is
  \<^verbatim>\<open>{"type":"ui.ready","payload":{}}\<close>, in which \<^verbatim>\<open>schema_version\<close> does not occur.
\<close>

theorem send_ready_has_no_schema_version:
  "delivered (world_of (send (str ''ui.ready'') JUndefined (loaded (Some accepting)))) =
     [''{'' @ quote ''type'' @ '':'' @ quote ''ui.ready'' @ '','' @ quote ''payload'' @ '':{}}'']
   \<and> \<not> str_includes
        (''{'' @ quote ''type'' @ '':'' @ quote ''ui.ready'' @ '','' @ quote ''payload'' @ '':{}}'')
        ''schema_version''"
  by (simp add: send_def loaded_def accepting_def default_payload_def world_of_def postMessage_def
      JSON_stringify_def try_catch_def  str_includes_def quote_def escape_char_def dq_def
      sublist_code)

section \<open>When \<^verbatim>\<open>send\<close> returns\<close>




section \<open>Inbound messages that are dropped\<close>

text \<open>
  C2 (as the code has it). A message that is \<^verbatim>\<open>null\<close>/\<^verbatim>\<open>undefined\<close> or has no \<^verbatim>\<open>type\<close> is
  dropped without a trace: \<^verbatim>\<open>__owl_receive\<close> returns and the whole world, the console
  included, is as before. Hence no state is mutated, and any later message is processed
  exactly as if the malformed one had never arrived.
\<close>

theorem malformed_dropped_silently:
  assumes "malformed message"
  shows "owl_receive message w = Returned w
         \<and> owl_receive later (world_of (owl_receive message w)) = owl_receive later w"
proof -
  have "owl_receive message w = Returned w"
    using assms
    by (cases message) (simp_all add: malformed_def owl_receive_def truthy_str_def)
  then show ?thesis
    by (simp add: world_of_def)
qed

theorem malformed_dropped_silently_witness:
  "malformed (Envelope None None)
   \<and> owl_receive (Envelope None None) (loaded (Some accepting)) = Returned (loaded (Some accepting))
   \<and> owl_receive NoMessage (world_of (owl_receive (Envelope None None) (loaded (Some accepting)))) =
       owl_receive NoMessage (loaded (Some accepting))"
  using malformed_dropped_silently [of "Envelope None None" "loaded (Some accepting)" NoMessage]
  by (simp add: malformed_def world_of_def)

text \<open>
  C2 as stated fails: after \<^verbatim>\<open>__owl_receive(null)\<close> on the freshly loaded script the
  console is still empty; nothing was logged.
\<close>

theorem null_message_is_not_logged:
  "console (world_of (owl_receive NoMessage (loaded None))) = []"
  by (simp add: owl_receive_def world_of_def loaded_def)

section \<open>Inbound messages of an unhandled type\<close>

lemma unhandled_type_leaves_world:
  "ty \<notin> set handled_types \<Longrightarrow> world_of (owl_receive (Envelope (Some ty) pl) w) = w"
  by (simp add: owl_receive_def handled_types_def messageHandlers_def world_of_def
      object_prototype_get_def)

lemma unknown_type_ignored:
  "ty \<notin> set handled_types \<Longrightarrow> object_prototype_get ty = Undefined \<Longrightarrow>
   owl_receive (Envelope (Some ty) pl) w = Returned w"
  by (simp add: owl_receive_def handled_types_def messageHandlers_def)

text \<open>
  C3 at the input \<^verbatim>\<open>{type: "__proto__"}\<close>: the type is none of the five handled ones, the
  state is untouched, but \<^verbatim>\<open>__owl_receive\<close> raises a TypeError instead of returning.
\<close>

theorem proto_type_throws:
  "''__proto__'' \<notin> set handled_types
   \<and> owl_receive (Envelope (Some ''__proto__'') pl) w = Threw TypeError w"
  by (simp add: owl_receive_def handled_types_def messageHandlers_def object_prototype_get_def
      truthy_str_def)


section \<open>The command types the client emits\<close>

lemma only_commands_refl: "only_commands base base"
  by (simp add: only_commands_def)

lemma only_commands_snoc:
  "only_commands base ds \<Longrightarrow> command_text text \<Longrightarrow> only_commands base (ds @ [text])"
  by (auto simp: only_commands_def)

lemma send_delivered:
  "delivered (world_of (send t p w)) = delivered w
   \<or> (\<exists>text. JSON_stringify (envelope t (default_payload p)) = Inr text
        \<and> delivered (world_of (send t p w)) = delivered w @ [text])"
  by (auto simp: send_def Let_def world_of_def try_catch_def postMessage_def console_warn_def
      console_error_def warn_template_def error_template_def split: option.splits sum.splits)

lemma send_only_commands:
  assumes "only_commands base (delivered w)" and "t \<in> set inbound_command_types"
  shows "only_commands base (delivered (world_of (send (str t) p w)))"
proof -
  from send_delivered [of "str t" p w] show ?thesis
  proof
    assume "delivered (world_of (send (str t) p w)) = delivered w"
    with assms(1) show ?thesis by simp
  next
    assume "\<exists>text. JSON_stringify (envelope (str t) (default_payload p)) = Inr text
        \<and> delivered (world_of (send (str t) p w)) = delivered w @ [text]"
    then obtain m where m: "JSON_stringify (envelope (str t) (default_payload p)) = Inr m"
      and d: "delivered (world_of (send (str t) p w)) = delivered w @ [m]" by blast
    from m assms(2) have "command_text m"
      unfolding command_text_def by blast
    with assms(1) d show ?thesis
      by (simp add: only_commands_snoc)
  qed
qed

lemma and_then_only_commands:
  assumes "only_commands base (delivered (world_of r))"
    and "\<And>w'. only_commands base (delivered w') \<Longrightarrow> only_commands base (delivered (world_of (f w')))"
  shows "only_commands base (delivered (world_of (and_then r f)))"
  using assms by (cases r) (simp_all add: and_then_def world_of_def)

lemma world_of_Returned [simp]: "world_of (Returned w) = w"
  by (simp add: world_of_def)

lemma world_of_Threw [simp]: "world_of (Threw e w) = w"
  by (simp add: world_of_def)

lemma delivered_syncCollapsedTabTitles [simp]:
  "delivered (syncCollapsedTabTitles c w) = delivered w"
  by (simp add: syncCollapsedTabTitles_def split: option.splits)

lemma delivered_applySidebarState [simp]: "delivered (applySidebarState c w) = delivered w"
  by (simp add: applySidebarState_def Let_def)

lemma delivered_closeTabMenu [simp]: "delivered (closeTabMenu w) = delivered w"
  by (simp add: closeTabMenu_def split: option.splits)

lemma delivered_closePalette [simp]: "delivered (closePalette w) = delivered w"
  by (simp add: closePalette_def)

lemma delivered_renderPaletteResults [simp]:
  "delivered (snd (renderPaletteResults q w)) = delivered w"
  by (simp add: renderPaletteResults_def Let_def split: option.splits)

lemma delivered_openPalette [simp]: "delivered (openPalette w) = delivered w"
  by (simp add: openPalette_def Let_def split: option.splits)

lemma delivered_openTabMenu [simp]: "delivered (openTabMenu i w) = delivered w"
  by (simp add: openTabMenu_def Let_def split: option.splits)

lemma delivered_setupEventHandlers [simp]: "delivered (setupEventHandlers w) = delivered w"
  by (simp add: setupEventHandlers_def split: option.splits)

lemma delivered_window_keydown [simp]: "delivered (window_keydown m k w) = delivered w"
  by (simp add: window_keydown_def Let_def split: key.splits)

lemma delivered_renderTabs [simp]: "delivered (world_of (renderTabs nodes w)) = delivered w"
  by (simp add: renderTabs_def Let_def split: option.splits prod.splits)


lemma setSidebarCollapsed_only_commands:
  "only_commands base (delivered w) \<Longrightarrow>
   only_commands base (delivered (world_of (setSidebarCollapsed c w)))"
  unfolding setSidebarCollapsed_def
  by (rule send_only_commands) (simp_all add: inbound_command_types_def)

lemma navigateFromAddress_only_commands:
  "only_commands base (delivered w) \<Longrightarrow>
   only_commands base (delivered (world_of (navigateFromAddress w)))"
  by (simp add: navigateFromAddress_def Let_def send_only_commands inbound_command_types_def
      split: option.splits)

lemma run_only_commands:
  "only_commands base (delivered w) \<Longrightarrow> only_commands base (delivered (world_of (run cmd w)))"
  by (cases cmd)
     (simp_all add: send_only_commands setSidebarCollapsed_only_commands inbound_command_types_def)

lemma tabMenu_click_only_commands:
  assumes "only_commands base (delivered w)"
  shows "only_commands base (delivered (world_of (tabMenu_click button w)))"
proof (cases "\<exists>action tabId. button = Some action \<and> menu_tabId (menuState w) = Some tabId")
  case False
  then show ?thesis
    using assms by (auto simp: tabMenu_click_def split: option.splits)
next
  case True
  then obtain action tabId where b: "button = Some action" "menu_tabId (menuState w) = Some tabId"
    by blast
  have step: "\<And>ty w'. ty \<in> set inbound_command_types \<Longrightarrow> only_commands base (delivered w') \<Longrightarrow>
      only_commands base (delivered (world_of (if c then send (str ty) (id_payload tabId) w' else Returned w')))" for c
    by (simp add: send_only_commands)
  show ?thesis
    unfolding tabMenu_click_def b prod.case option.case
    by (intro and_then_only_commands step assms) (simp_all add: inbound_command_types_def)
qed


lemma palette_keydown_only_commands:
  assumes "only_commands base (delivered w)"
  shows "only_commands base (delivered (world_of (palette_keydown k w)))"
proof (cases "paletteInput_value (elements w)")
  case None
  with assms show ?thesis by (simp add: palette_keydown_def)
next
  case (Some v)
  obtain results w1 where r: "renderPaletteResults v w = (results, w1)"
    by (cases "renderPaletteResults v w")
  have "delivered (snd (renderPaletteResults v w)) = delivered w" by simp
  with r assms have w1: "only_commands base (delivered w1)" by simp
  have closing: "\<And>r. only_commands base (delivered (world_of r)) \<Longrightarrow>
      only_commands base (delivered (world_of (and_then r (\<lambda>w2. Returned (closePalette w2)))))"
    by (rule and_then_only_commands) simp_all
  show ?thesis
    unfolding palette_keydown_def Some option.case r prod.case Let_def
    using w1
    by (cases k)
       (simp_all add: closing run_only_commands send_only_commands inbound_command_types_def)
qed

lemma tabs_keydown_only_commands:
  "only_commands base (delivered w) \<Longrightarrow>
   only_commands base (delivered (world_of (tabs_keydown k w)))"
  by (simp add: tabs_keydown_def Let_def send_only_commands inbound_command_types_def)

text \<open>
  C5. Whatever listener fires in whatever world, the texts it adds to the delivered list
  are envelopes whose type is one of the fifteen enumerated command types: no call site
  of \<^verbatim>\<open>send\<close> uses another type.
\<close>

theorem listeners_emit_only_commands:
  "only_commands (delivered w) (delivered (world_of (fire l w)))"
proof -
  have base: "only_commands (delivered w) (delivered w)"
    by (rule only_commands_refl)
  have closing: "\<And>r. only_commands (delivered w) (delivered (world_of r)) \<Longrightarrow>
      only_commands (delivered w) (delivered (world_of (and_then r (\<lambda>w2. Returned (closePalette w2)))))"
    by (rule and_then_only_commands) simp_all
  show ?thesis
  proof (cases l)
    case (TabSearchInput v)
    then show ?thesis
      using base by (simp add: Let_def filterStored_def split: option.splits sum.splits)
  next
    case (PaletteItemClick cmd)
    then show ?thesis
      using base by (simp add: closing run_only_commands)
  next
    case (RowKeydown i shiftKey k)
    then show ?thesis
      using base by (simp add: Let_def)
  next
    case NavReloadClick
    then show ?thesis
      using base
      by (simp add: Let_def send_only_commands inbound_command_types_def split: option.splits)
  qed (use base in \<open>simp_all add: send_only_commands setSidebarCollapsed_only_commands
        navigateFromAddress_only_commands tabMenu_click_only_commands
        palette_keydown_only_commands tabs_keydown_only_commands inbound_command_types_def\<close>)
qed

theorem listeners_emit_only_commands_witness:
  "only_commands [] (delivered (world_of (fire NavBackClick (loaded (Some accepting)))))
   \<and> delivered (world_of (fire NavBackClick (loaded (Some accepting)))) =
       [''{'' @ quote ''type'' @ '':'' @ quote ''nav.back'' @ '','' @ quote ''payload'' @ '':{}}'']"
proof -
  have "delivered (loaded (Some accepting)) = []"
    by (simp add: loaded_def)
  with listeners_emit_only_commands [of "loaded (Some accepting)" NavBackClick]
  have "only_commands [] (delivered (world_of (fire NavBackClick (loaded (Some accepting)))))"
    by simp
  moreover have "delivered (world_of (fire NavBackClick (loaded (Some accepting)))) =
       [''{'' @ quote ''type'' @ '':'' @ quote ''nav.back'' @ '','' @ quote ''payload'' @ '':{}}'']"
    by (simp add: send_def loaded_def accepting_def default_payload_def postMessage_def
        JSON_stringify_def try_catch_def )
  ultimately show ?thesis by simp
qed


section \<open>Navigation controls\<close>



section \<open>Favicon updates\<close>

lemma updateTreeFavicon_map:
  "updateTreeFavicon nodes idset uri = map (set_favicon idset uri) nodes"
proof (induction nodes idset uri rule: updateTreeFavicon.induct)
  case (1 idset uri)
  show ?case by simp
next
  case (2 node nodes idset uri)
  then show ?case
    by (cases node) auto
qed

lemma lastTabs_favicon_forEach_body:
  "lastTabs (state (favicon_forEach_body p i w)) = lastTabs (state w)"
  by (simp add: favicon_forEach_body_def Let_def split: option.splits)

lemma lastTabs_fold_forEach:
  "lastTabs (state (fold (favicon_forEach_body p) idl w)) = lastTabs (state w)"
  by (induction idl arbitrary: w) (simp_all add: lastTabs_favicon_forEach_body)

text \<open>
  C7 (as the code has it). A \<^verbatim>\<open>state.favicon\<close> payload with a missing or empty \<^verbatim>\<open>ids\<close>
  list changes nothing at all. Otherwise the stored tree becomes the tree in which exactly
  the tabs whose id is in \<^verbatim>\<open>ids\<close>, at every depth, have the new favicon, all other tabs
  and all other fields being as before; the new favicon is the given \<^verbatim>\<open>favicon_uri\<close> when
  that is a non-empty string, and \<^verbatim>\<open>null\<close> when it is empty or missing.
\<close>

theorem applyFaviconUpdate_stored_tree:
  "(ids p = None \<or> ids p = Some [] \<longrightarrow> applyFaviconUpdate (Some p) w = Returned w)
   \<and> (\<forall>idl nodes. ids p = Some idl \<and> idl \<noteq> [] \<and> lastTabs (state w) = Some nodes \<longrightarrow>
        (\<exists>w'. applyFaviconUpdate (Some p) w = Returned w'
           \<and> lastTabs (state w') =
               Some (map (set_favicon (set idl)
                       (if truthy_str (favicon_uri_update p) then favicon_uri_update p else None))
                     nodes)))"
proof (intro conjI impI allI)
  assume "ids p = None \<or> ids p = Some []"
  then show "applyFaviconUpdate (Some p) w = Returned w"
    by (auto simp: applyFaviconUpdate_def)
next
  fix idl nodes
  assume a: "ids p = Some idl \<and> idl \<noteq> [] \<and> lastTabs (state w) = Some nodes"
  then obtain i rest where idl: "idl = i # rest"
    by (cases idl) auto
  let ?uri = "if truthy_str (favicon_uri_update p) then favicon_uri_update p else None"
  let ?w1 = "w\<lparr>state := (state w)\<lparr>lastTabs := Some (updateTreeFavicon nodes (set idl) ?uri)\<rparr>\<rparr>"
  have "applyFaviconUpdate (Some p) w = Returned (fold (favicon_forEach_body p) idl ?w1)"
    using a unfolding idl by (simp add: applyFaviconUpdate_def Let_def del: fold_simps)
  moreover have "lastTabs (state (fold (favicon_forEach_body p) idl ?w1)) =
      Some (map (set_favicon (set idl) ?uri) nodes)"
    by (simp add: lastTabs_fold_forEach updateTreeFavicon_map)
  ultimately show "\<exists>w'. applyFaviconUpdate (Some p) w = Returned w'
           \<and> lastTabs (state w') = Some (map (set_favicon (set idl) ?uri) nodes)"
    by blast
qed


theorem applyFaviconUpdate_stored_tree_witness:
  "applyFaviconUpdate (Some no_fields) (loaded None) = Returned (loaded None)
   \<and> map (\<lambda>node. (node_id node, favicon_uri node))
         (concat (map subtree (the (lastTabs (state (world_of
            (applyFaviconUpdate (Some (no_fields\<lparr>ids := Some [4, 2], favicon_uri_update := Some ''f.ico''\<rparr>))
               ((loaded None)\<lparr>state := initial_state\<lparr>lastTabs := Some sample_forest\<rparr>\<rparr>)))))))) =
       [(1, None), (2, Some ''f.ico''), (3, None), (4, Some ''f.ico''), (5, None), (6, None)]"
proof -
  let ?p = "no_fields\<lparr>ids := Some [4, 2], favicon_uri_update := Some ''f.ico''\<rparr>"
  let ?w = "(loaded None)\<lparr>state := initial_state\<lparr>lastTabs := Some sample_forest\<rparr>\<rparr>"
  have untouched: "applyFaviconUpdate (Some no_fields) (loaded None) = Returned (loaded None)"
    using applyFaviconUpdate_stored_tree [of no_fields "loaded None"]
    by (simp add: no_fields_def)
  have "ids ?p = Some [4, 2] \<and> [4, 2] \<noteq> ([] :: nat list) \<and> lastTabs (state ?w) = Some sample_forest"
    by simp
  with applyFaviconUpdate_stored_tree [of ?p ?w]
  obtain w' where w': "applyFaviconUpdate (Some ?p) ?w = Returned w'"
    and stored: "lastTabs (state w') =
       Some (map (set_favicon (set [4, 2])
               (if truthy_str (favicon_uri_update ?p) then favicon_uri_update ?p else None))
             sample_forest)"
    by blast
  have "map (\<lambda>node. (node_id node, favicon_uri node))
          (concat (map subtree (the (lastTabs (state (world_of (Returned w'))))))) =
       [(1, None), (2, Some ''f.ico''), (3, None), (4, Some ''f.ico''), (5, None), (6, None)]"
    by (simp add: stored truthy_str_def sample_forest_def folder_def leaf_def)
  with untouched show ?thesis
    unfolding w' by blast
qed

text \<open>
  C7 as stated fails: with the empty string as given \<^verbatim>\<open>favicon_uri\<close>, the tab of the
  update ends with \<^verbatim>\<open>favicon_uri\<close> = \<^verbatim>\<open>null\<close>, which is not the given value.
\<close>

theorem empty_favicon_uri_is_stored_as_null:
  "favicon_uri_update (no_fields\<lparr>ids := Some [6], favicon_uri_update := Some []\<rparr>) = Some []
   \<and> map favicon_uri (the (lastTabs (state (world_of
        (applyFaviconUpdate (Some (no_fields\<lparr>ids := Some [6], favicon_uri_update := Some []\<rparr>))
           ((loaded None)\<lparr>state := initial_state\<lparr>lastTabs :=
               Some [TabNode 6 ''News'' ''https://news.example'' (Some ''old.ico'')
                       False False False False True False []]\<rparr>\<rparr>)))))) = [None]"
  by (simp add: applyFaviconUpdate_def favicon_forEach_body_def Let_def truthy_str_def
      initial_state_def loaded_def full_document_def no_fields_def)

section \<open>Rendering follows the expanded preorder\<close>

lemma buildRow_frame:
  "sidebarCollapsed s' = sidebarCollapsed s \<Longrightarrow> defaultFavicon s' = defaultFavicon s \<Longrightarrow>
   buildRow s' node d = buildRow s node d"
  by (simp add: buildRow_def)

lemma preorder_hidden:
  "\<not> b \<Longrightarrow> filter (\<lambda>(node, d', v). v) (preorder d b nodes) = []"
  by (induction d b nodes rule: preorder.induct) auto

lemma shown_from_Nil: "shown_from d [] = []"
  by (simp add: shown_from_def)

lemma shown_from_Cons:
  "shown_from d (node # nodes) =
     (node, d) # (if is_expanded node then shown_from (d + 1) (children node) else [])
       @ shown_from d nodes"
  by (simp add: shown_from_def preorder_hidden)



lemma rendered_Nil: "rendered s0 [] acc = acc"
  by (simp add: rendered_def)

lemma rendered_append: "rendered s0 (xs @ ys) acc = rendered s0 ys (rendered s0 xs acc)"
  by (simp add: rendered_def)

lemma rendered_one:
  "sidebarCollapsed s = sidebarCollapsed s0 \<Longrightarrow> defaultFavicon s = defaultFavicon s0 \<Longrightarrow>
   (fragment @ [buildRow s node d],
    s\<lparr>flatTabs := flatTabs s @ [node_id node], tabMap := (tabMap s)(node_id node \<mapsto> node)\<rparr>) =
   rendered s0 [(node, d)] (fragment, s)"
  using buildRow_frame [of s s0 node d] by (simp add: rendered_def)


lemma rendered_frame:
  "sidebarCollapsed (snd (rendered s0 vis acc)) = sidebarCollapsed (snd acc)"
  "defaultFavicon (snd (rendered s0 vis acc)) = defaultFavicon (snd acc)"
  by (simp_all add: rendered_def)

lemma renderNodes_rendered:
  "sidebarCollapsed (snd acc) = sidebarCollapsed s0 \<Longrightarrow> defaultFavicon (snd acc) = defaultFavicon s0 \<Longrightarrow>
   renderNodes nodes d acc = rendered s0 (shown_from d nodes) acc"
proof (induction nodes d acc rule: renderNodes.induct)
  case (1 d acc)
  show ?case by (simp add: shown_from_Nil rendered_Nil)
next
  case (2 node nodes d fragment s)
  let ?x = "fragment @ [buildRow s node d]"
  let ?xa = "s\<lparr>flatTabs := flatTabs s @ [node_id node]\<rparr>"
  let ?xb = "?xa\<lparr>tabMap := (tabMap ?xa)(node_id node \<mapsto> node)\<rparr>"
  let ?one = "rendered s0 [(node, d)] (fragment, s)"
  let ?sub = "if children node \<noteq> [] \<and> is_expanded node
              then renderNodes (children node) (d + 1) (?x, ?xb) else (?x, ?xb)"
  have frame: "sidebarCollapsed s = sidebarCollapsed s0" "defaultFavicon s = defaultFavicon s0"
    using "2.prems" by simp_all
  have one: "(?x, ?xb) = ?one"
    using rendered_one [OF frame, of fragment node d] by simp
  have frame1: "sidebarCollapsed (snd (?x, ?xb)) = sidebarCollapsed s0"
    "defaultFavicon (snd (?x, ?xb)) = defaultFavicon s0"
    using frame by simp_all
  have sub: "?sub = rendered s0 (if is_expanded node then shown_from (d + 1) (children node) else []) ?one"
  proof (cases "children node \<noteq> [] \<and> is_expanded node")
    case True
    from "2.IH"(1) [OF refl refl refl True frame1]
    show ?thesis using True one by simp
  next
    case False
    then show ?thesis using one by (auto simp: rendered_Nil shown_from_Nil)
  qed
  have frame2: "sidebarCollapsed (snd ?sub) = sidebarCollapsed s0"
    "defaultFavicon (snd ?sub) = defaultFavicon s0"
    unfolding sub using frame by (simp_all add: rendered_frame)
  have "renderNodes (node # nodes) d (fragment, s) = renderNodes nodes d ?sub"
    by (simp add: Let_def)
  also have "\<dots> = rendered s0 (shown_from d nodes) ?sub"
    by (rule "2.IH"(2) [OF refl refl refl frame2])
  also have "\<dots> = rendered s0 (shown_from d (node # nodes)) (fragment, s)"
    unfolding sub shown_from_Cons
    by (simp add: rendered_append [symmetric])
  finally show ?case .
qed


lemma state_syncCollapsedTabTitles: "state (syncCollapsedTabTitles c w) = state w"
  by (simp add: syncCollapsedTabTitles_def split: option.splits)

lemma rows_syncCollapsedTabTitles:
  "tabs_rows (elements w) = Some rows \<Longrightarrow>
   \<exists>rows'. tabs_rows (elements (syncCollapsedTabTitles c w)) = Some rows'
      \<and> map (\<lambda>r. (data_id r, depth r)) rows' = map (\<lambda>r. (data_id r, depth r)) rows"
  by (simp add: syncCollapsedTabTitles_def comp_def)

lemma rows_of_rendered:
  "map (\<lambda>r. (data_id r, depth r)) (map (\<lambda>(node, d). buildRow s0 node d) vis) =
   map (\<lambda>(node, d). (node_id node, d)) vis"
  by (induction vis) (auto simp: buildRow_def Let_def)

lemma renderTabs_effect:
  "\<exists>w'. renderTabs (Some nodes) w = Returned w'
     \<and> state w' = (state w)\<lparr>flatTabs := map (\<lambda>(node, d). node_id node) (shown nodes),
                             tabMap := fold (\<lambda>(node, d) m. m(node_id node \<mapsto> node)) (shown nodes) Map.empty\<rparr>
     \<and> (\<forall>old. tabs_rows (elements w) = Some old \<longrightarrow>
          (\<exists>rows'. tabs_rows (elements w') = Some rows'
             \<and> map (\<lambda>r. (data_id r, depth r)) rows' = map (\<lambda>(node, d). (node_id node, d)) (shown nodes)))"
proof -
  let ?s1 = "(state w)\<lparr>flatTabs := [], tabMap := Map.empty\<rparr>"
  let ?w1 = "w\<lparr>state := ?s1\<rparr>"
  let ?vis = "shown nodes"
  let ?fragment = "map (\<lambda>(node, d). buildRow ?s1 node d) ?vis"
  let ?s2 = "(state w)\<lparr>flatTabs := map (\<lambda>(node, d). node_id node) ?vis,
                         tabMap := fold (\<lambda>(node, d) m. m(node_id node \<mapsto> node)) ?vis Map.empty\<rparr>"
  have r: "renderNodes nodes 0 ([], ?s1) = (?fragment, ?s2)"
    using renderNodes_rendered [of "([], ?s1)" ?s1 nodes 0]
    by (simp add: rendered_def shown_def)
  define w3 where "w3 =
     (case tabs_rows (elements w) of None \<Rightarrow> w\<lparr>state := ?s2\<rparr>
      | Some old \<Rightarrow> w\<lparr>state := ?s2, elements := (elements w)\<lparr>tabs_rows := Some ?fragment\<rparr>\<rparr>)"
  define w' where "w' = syncCollapsedTabTitles (sidebarCollapsed (state w3)) w3"
  have ret: "renderTabs (Some nodes) w = Returned w'"
    by (simp add: renderTabs_def Let_def r w'_def w3_def split: option.splits)
  have st: "state w' = ?s2"
    by (simp add: w'_def w3_def state_syncCollapsedTabTitles split: option.splits)
  have rows: "\<exists>rows'. tabs_rows (elements w') = Some rows'
         \<and> map (\<lambda>r. (data_id r, depth r)) rows' = map (\<lambda>(node, d). (node_id node, d)) ?vis"
    if "tabs_rows (elements w) = Some old" for old
  proof -
    from that have "tabs_rows (elements w3) = Some ?fragment"
      by (simp add: w3_def)
    from rows_syncCollapsedTabTitles [OF this, of "sidebarCollapsed (state w3)"]
    obtain rows' where "tabs_rows (elements w') = Some rows'"
      and "map (\<lambda>r. (data_id r, depth r)) rows' = map (\<lambda>r. (data_id r, depth r)) ?fragment"
      unfolding w'_def by blast
    then show ?thesis
      using rows_of_rendered [of ?s1 ?vis] by metis
  qed
  from ret st rows show ?thesis by blast
qed


text \<open>
  C8. \<^verbatim>\<open>renderTabs(nodes)\<close> returns for every forest. Afterwards \<^verbatim>\<open>state.flatTabs\<close> lists
  the ids in depth-first preorder, children in their order, restricted to the nodes all of
  whose ancestors are expanded, and the sidebar (when the document has one) holds one row
  per such node, in the same order, at the depth of the node. By \<open>shown_from_Cons\<close> the
  children of a rendered node appear exactly when its \<^verbatim>\<open>is_expanded\<close> flag is set.
\<close>

theorem renderTabs_preorder_of_expanded:
  "\<exists>w'. renderTabs (Some nodes) w = Returned w'
     \<and> flatTabs (state w') = map (\<lambda>(node, d). node_id node) (shown nodes)
     \<and> (\<forall>old. tabs_rows (elements w) = Some old \<longrightarrow>
          (\<exists>rows'. tabs_rows (elements w') = Some rows'
             \<and> map (\<lambda>r. (data_id r, depth r)) rows' = map (\<lambda>(node, d). (node_id node, d)) (shown nodes)))"
proof -
  from renderTabs_effect [of nodes w] obtain w' where
    "renderTabs (Some nodes) w = Returned w'"
    "state w' = (state w)\<lparr>flatTabs := map (\<lambda>(node, d). node_id node) (shown nodes),
                            tabMap := fold (\<lambda>(node, d) m. m(node_id node \<mapsto> node)) (shown nodes) Map.empty\<rparr>"
    "\<forall>old. tabs_rows (elements w) = Some old \<longrightarrow>
          (\<exists>rows'. tabs_rows (elements w') = Some rows'
             \<and> map (\<lambda>r. (data_id r, depth r)) rows' = map (\<lambda>(node, d). (node_id node, d)) (shown nodes))"
    by blast
  then show ?thesis by simp
qed

lemma shown_sample_forest:
  "map (\<lambda>(node, d). (node_id node, d)) (shown sample_forest) = [(1, 0), (3, 0), (4, 1), (5, 1), (6, 0)]"
  by (simp add: shown_def shown_from_def sample_forest_def folder_def leaf_def)

theorem renderTabs_preorder_of_expanded_witness:
  "flatTabs (state (world_of (renderTabs (Some sample_forest) (loaded None)))) = [1, 3, 4, 5, 6]
   \<and> map (\<lambda>r. (data_id r, depth r))
         (the (tabs_rows (elements (world_of (renderTabs (Some sample_forest) (loaded None)))))) =
       [(1, 0), (3, 0), (4, 1), (5, 1), (6, 0)]"
proof -
  have "tabs_rows (elements (loaded None)) = Some []"
    by (simp add: loaded_def full_document_def)
  with renderTabs_preorder_of_expanded [of sample_forest "loaded None"]
  obtain w' rows' where w': "renderTabs (Some sample_forest) (loaded None) = Returned w'"
    and flat: "flatTabs (state w') = map (\<lambda>(node, d). node_id node) (shown sample_forest)"
    and rows: "tabs_rows (elements w') = Some rows'"
      "map (\<lambda>r. (data_id r, depth r)) rows' = map (\<lambda>(node, d). (node_id node, d)) (shown sample_forest)"
    by blast
  have "map (\<lambda>(node, d). node_id node) (shown sample_forest) =
        map fst (map (\<lambda>(node, d). (node_id node, d)) (shown sample_forest))"
    by (simp add: comp_def case_prod_unfold)
  then have "flatTabs (state w') = [1, 3, 4, 5, 6]"
    unfolding flat shown_sample_forest by simp
  with rows show ?thesis
    unfolding w' by (simp add: shown_sample_forest)
qed

section \<open>Applying a snapshot\<close>

lemma state_closeTabMenu: "state (closeTabMenu w) = state w"
  by (simp add: closeTabMenu_def split: option.splits)

lemma tabs_rows_closeTabMenu: "tabs_rows (elements (closeTabMenu w)) = tabs_rows (elements w)"
  by (simp add: closeTabMenu_def split: option.splits)

text \<open>
  C4. For a snapshot payload with a \<^verbatim>\<open>tabs\<close> field, \<^verbatim>\<open>applyState\<close> returns; afterwards
  \<^verbatim>\<open>state.lastTabs\<close> is the received tree, \<^verbatim>\<open>state.activeTabId\<close> (and
  \<^verbatim>\<open>state.lastActive\<close>) the received active id, and with an empty tab-search query what is
  rendered is built from that stored tree itself: \<^verbatim>\<open>flatTabs\<close>, \<^verbatim>\<open>tabMap\<close> and the rows
  are those of its shown nodes.
\<close>

theorem applyState_stores_snapshot:
  assumes "tabs p = Some ts"
  shows "\<exists>w'. applyState (Some p) w = Returned w'
     \<and> lastTabs (state w') = Some ts
     \<and> activeTabId (state w') = active p
     \<and> lastActive (state w') = active p
     \<and> (tabQuery (state w) = [] \<longrightarrow>
          flatTabs (state w') = map (\<lambda>(node, d). node_id node) (shown ts)
          \<and> tabMap (state w') = fold (\<lambda>(node, d) m. m(node_id node \<mapsto> node)) (shown ts) Map.empty
          \<and> (\<forall>old. tabs_rows (elements w) = Some old \<longrightarrow>
               (\<exists>rows'. tabs_rows (elements w') = Some rows'
                  \<and> map (\<lambda>r. (data_id r, depth r)) rows' = map (\<lambda>(node, d). (node_id node, d)) (shown ts))))"
proof -
  define w1 where "w1 = w\<lparr>state := (state w)\<lparr>activeTabId := active p, lastTabs := tabs p,
                                                lastActive := active p\<rparr>\<rparr>"
  define shownTree where "shownTree = filterNodes (toLowerCase w) ts (tabQuery (state w))"
  have filtered: "filterStored (toLowerCase w1) (lastTabs (state w1)) (tabQuery (state w1)) =
      Inr (Some shownTree)"
    using assms by (simp add: w1_def filterStored_def shownTree_def)
  from renderTabs_effect [of shownTree w1] obtain w2 where
    w2: "renderTabs (Some shownTree) w1 = Returned w2"
    and st2: "state w2 = (state w1)\<lparr>flatTabs := map (\<lambda>(node, d). node_id node) (shown shownTree),
                 tabMap := fold (\<lambda>(node, d) m. m(node_id node \<mapsto> node)) (shown shownTree) Map.empty\<rparr>"
    and rows2: "\<forall>old. tabs_rows (elements w1) = Some old \<longrightarrow>
          (\<exists>rows'. tabs_rows (elements w2) = Some rows'
             \<and> map (\<lambda>r. (data_id r, depth r)) rows' = map (\<lambda>(node, d). (node_id node, d)) (shown shownTree))"
    by blast
  obtain w' where ret: "applyState (Some p) w = Returned w'"
    and st: "state w' = state (closeTabMenu w2)"
    and rows: "tabs_rows (elements w') = tabs_rows (elements (closeTabMenu w2))"
    using filtered w2
    by (auto simp: applyState_def Let_def and_then_def w1_def [symmetric]
        split: option.splits prod.splits)
  have plain: "tabQuery (state w) = [] \<Longrightarrow> shownTree = ts"
    by (simp add: shownTree_def)
  have elems: "tabs_rows (elements w1) = tabs_rows (elements w)"
    by (simp add: w1_def)
  show ?thesis
    using ret st rows st2 rows2 plain elems assms
    by (auto simp: state_closeTabMenu tabs_rows_closeTabMenu w1_def)
qed

theorem applyState_stores_snapshot_witness:
  "lastTabs (state (world_of (applyState (Some (no_fields\<lparr>tabs := Some sample_forest, active := Some 4\<rparr>))
      (loaded None)))) = Some sample_forest
   \<and> activeTabId (state (world_of (applyState (Some (no_fields\<lparr>tabs := Some sample_forest, active := Some 4\<rparr>))
      (loaded None)))) = Some 4
   \<and> flatTabs (state (world_of (applyState (Some (no_fields\<lparr>tabs := Some sample_forest, active := Some 4\<rparr>))
      (loaded None)))) = [1, 3, 4, 5, 6]"
proof -
  let ?p = "no_fields\<lparr>tabs := Some sample_forest, active := Some 4\<rparr>"
  have "tabs ?p = Some sample_forest" by simp
  from applyState_stores_snapshot [OF this, of "loaded None"]
  obtain w' where w': "applyState (Some ?p) (loaded None) = Returned w'"
    and stored: "lastTabs (state w') = Some sample_forest" "activeTabId (state w') = active ?p"
    and shownTree: "tabQuery (state (loaded None)) = [] \<longrightarrow>
          flatTabs (state w') = map (\<lambda>(node, d). node_id node) (shown sample_forest)"
    by blast
  have "map (\<lambda>(node, d). node_id node) (shown sample_forest) =
        map fst (map (\<lambda>(node, d). (node_id node, d)) (shown sample_forest))"
    by (simp add: comp_def case_prod_unfold)
  then have "map (\<lambda>(node, d). node_id node) (shown sample_forest) = [1, 3, 4, 5, 6]"
    unfolding shown_sample_forest by simp
  with shownTree have "flatTabs (state w') = [1, 3, 4, 5, 6]"
    by (simp add: loaded_def initial_state_def)
  with stored show ?thesis
    unfolding w' by (simp add: no_fields_def)
qed

section \<open>Filtering the tree\<close>

lemma kept_unfold: "kept lower query node = (matches lower query node \<or> list_ex (kept lower query) (children node))"
  by (cases node) simp

lemma filterNodes_Nil: "filterNodes lower [] query = []"
  by simp

lemma filter_eq:
  "query \<noteq> [] \<Longrightarrow> filterNodes lower nodes query = map (pruned lower query) (filter (kept lower query) nodes)"
  "query \<noteq> [] \<Longrightarrow> filterLoop lower nodes query filtered = filtered @ map (pruned lower query) (filter (kept lower query) nodes)"
proof (induction lower nodes query and lower nodes query filtered rule: filterNodes_filterLoop.induct)
  case (1 lower nodes query)
  then show ?case by simp
next
  case (2 lower query filtered)
  show ?case by simp
next
  case (3 lower node nodes query filtered)
  let ?m = "str_includes (lower (title node)) (lower query)
            \<or> str_includes (lower (url node)) (lower query)"
  let ?cs = "if children node \<noteq> [] then filterNodes lower (children node) query else []"
  let ?new = "TabNode (node_id node) (title node) (url node) (favicon_uri node) (is_group node)
                (is_pinned node) (is_muted node) (is_suspended node) (is_active node) True ?cs"
  let ?acc = "if ?m \<or> ?cs \<noteq> [] then filtered @ [?new] else filtered"
  have q: "query \<noteq> []" by fact
  have cs: "?cs = map (pruned lower query) (filter (kept lower query) (children node))"
  proof (cases "children node = []")
    case True
    then show ?thesis by simp
  next
    case False
    from "3.IH"(1) [OF refl refl refl refl False q] False show ?thesis by simp
  qed
  have cs': "?cs = filterNodes lower (children node) query"
    by simp
  have keep: "(?m \<or> ?cs \<noteq> []) = kept lower query node"
    unfolding cs by (subst kept_unfold) (auto simp: matches_def list_ex_iff filter_empty_conv)
  have new: "?new = pruned lower query node"
    unfolding pruned_def cs' ..
  have "filterLoop lower (node # nodes) query filtered = filterLoop lower nodes query ?acc"
    by (simp add: Let_def)
  also have "\<dots> = ?acc @ map (pruned lower query) (filter (kept lower query) nodes)"
    by (rule "3.IH"(2) [OF refl refl refl refl refl q])
  also have "\<dots> = filtered @ map (pruned lower query) (filter (kept lower query) (node # nodes))"
    unfolding keep new by simp
  finally show ?case .
qed

lemma kept_iff_matching_descendant:
  "kept lower query node = (\<exists>m \<in> set (subtree node). matches lower query m)"
  by (induction node) (auto simp: list_ex_iff)

lemma subtree_self: "node \<in> set (subtree node)"
  by (cases node) simp

lemma subtree_trans:
  "m \<in> set (subtree node) \<Longrightarrow> set (subtree m) \<subseteq> set (subtree node)"
proof (induction node)
  case (TabNode i t u f g p k s a e cs)
  show ?case
  proof (cases "m = TabNode i t u f g p k s a e cs")
    case True
    then show ?thesis by simp
  next
    case False
    with TabNode.prems obtain c where c: "c \<in> set cs" "m \<in> set (subtree c)"
      by auto
    from TabNode.IH [OF c] c(1) show ?thesis
      by auto
  qed
qed

lemma kept_iff_kept_descendant:
  "kept lower query node =
     (matches lower query node \<or> (\<exists>m \<in> set (concat (map subtree (children node))). kept lower query m))"
proof -
  have "(\<exists>m \<in> set (concat (map subtree (children node))). kept lower query m) =
        list_ex (kept lower query) (children node)"
  proof
    assume "\<exists>m \<in> set (concat (map subtree (children node))). kept lower query m"
    then obtain c m where c: "c \<in> set (children node)" and m: "m \<in> set (subtree c)" "kept lower query m"
      by auto
    from m(2) obtain x where "x \<in> set (subtree m)" "matches lower query x"
      by (auto simp: kept_iff_matching_descendant)
    with subtree_trans [OF m(1)] have "kept lower query c"
      by (auto simp: kept_iff_matching_descendant)
    with c show "list_ex (kept lower query) (children node)"
      by (auto simp: list_ex_iff)
  next
    assume "list_ex (kept lower query) (children node)"
    then obtain c where "c \<in> set (children node)" "kept lower query c"
      by (auto simp: list_ex_iff)
    with subtree_self [of c] show "\<exists>m \<in> set (concat (map subtree (children node))). kept lower query m"
      by auto
  qed
  then show ?thesis
    by (subst kept_unfold) simp
qed

lemma lastTabs_renderTabs:
  "lastTabs (state (world_of (renderTabs nodes w))) = lastTabs (state w)"
proof (cases nodes)
  case None
  then show ?thesis by (simp add: renderTabs_def)
next
  case (Some ns)
  from renderTabs_effect [of ns w] show ?thesis
    unfolding Some by auto
qed

text \<open>
  C9 (as the code has it). With the empty query \<^verbatim>\<open>filterNodes\<close> hands its argument back. With
  any other query the result consists, in order, of the nodes that are kept, where a node
  is kept exactly when its title or url, lowered as a whole by \<^verbatim>\<open>toLowerCase\<close>, contains the
  lowered query as a substring, or one of its children is kept (equivalently, by
  \<open>kept_iff_kept_descendant\<close> and \<open>kept_iff_matching_descendant\<close>, one of its descendants is
  kept, or matches); each kept node comes back expanded and with its children replaced by
  their filtered list. Filtering from the search box leaves the stored tree as it was.
  This holds whatever the lowering of the host is.
\<close>

theorem filterNodes_keeps_matching_branches:
  "filterNodes lower nodes [] = nodes
   \<and> (query \<noteq> [] \<longrightarrow>
        filterNodes lower nodes query = map (pruned lower query) (filter (kept lower query) nodes))
   \<and> lastTabs (state (world_of (fire (TabSearchInput v) w))) = lastTabs (state w)"
proof -
  have identity: "filterNodes lower nodes [] = nodes"
    by simp
  have selection: "query \<noteq> [] \<longrightarrow>
      filterNodes lower nodes query = map (pruned lower query) (filter (kept lower query) nodes)"
    using filter_eq(1) by blast
  have unmutated: "lastTabs (state (world_of (fire (TabSearchInput v) w))) = lastTabs (state w)"
    by (simp add: Let_def filterStored_def lastTabs_renderTabs del: filterNodes.simps
        split: option.splits)
  from identity selection unmutated show ?thesis by blast
qed

theorem filterNodes_keeps_matching_branches_witness:
  "map (\<lambda>node. (node_id node, is_expanded node))
       (concat (map subtree (filterNodes example_toLowerCase sample_forest ''RUST''))) =
     [(3, True), (5, True)]
   \<and> map (pruned example_toLowerCase ''RUST'') (filter (kept example_toLowerCase ''RUST'') sample_forest) =
       [TabNode 3 ''Docs'' [] None True False False False False True
          [TabNode 5 ''Rust Book'' ''https://doc.rust-lang.org'' None False False False False False True []]]"
proof -
  have direct: "filterNodes example_toLowerCase sample_forest ''RUST'' =
       [TabNode 3 ''Docs'' [] None True False False False False True
          [TabNode 5 ''Rust Book'' ''https://doc.rust-lang.org'' None False False False False False True []]]"
    by (simp add: sample_forest_def folder_def leaf_def Let_def example_toLowerCase_def
        ascii_lower_def capital_alpha_sigma_def capital_sigma_def str_includes_def sublist_code)
  have "''RUST'' \<noteq> []" by simp
  with filterNodes_keeps_matching_branches [of example_toLowerCase sample_forest "''RUST''"]
  have "filterNodes example_toLowerCase sample_forest ''RUST'' =
      map (pruned example_toLowerCase ''RUST'') (filter (kept example_toLowerCase ''RUST'') sample_forest)"
    by blast
  with direct have selected:
    "map (pruned example_toLowerCase ''RUST'') (filter (kept example_toLowerCase ''RUST'') sample_forest) =
       [TabNode 3 ''Docs'' [] None True False False False False True
          [TabNode 5 ''Rust Book'' ''https://doc.rust-lang.org'' None False False False False False True []]]"
    by (simp del: filterNodes.simps)
  show ?thesis
    unfolding selected direct by simp
qed

text \<open>
  C9 as stated fails. The title of the two Greek capitals alpha and sigma
  (\<open>capital_alpha_sigma\<close>) contains the query capital sigma (\<open>capital_sigma\<close>) letter for
  letter, hence case-insensitively on any reading. But \<^verbatim>\<open>toLowerCase\<close> turns the title into
  small alpha and final small sigma and the query into the plain small sigma, the lowered
  title does not contain the lowered query, and \<^verbatim>\<open>filterNodes\<close> drops the node.
\<close>

theorem final_sigma_title_is_dropped:
  "str_includes capital_alpha_sigma capital_sigma
   \<and> example_toLowerCase capital_alpha_sigma = small_alpha_final_sigma
   \<and> example_toLowerCase capital_sigma = small_sigma
   \<and> capital_sigma \<noteq> []
   \<and> filterNodes example_toLowerCase [leaf 1 capital_alpha_sigma ''https://example.org''] capital_sigma = []"
  by (simp add: example_toLowerCase_def ascii_lower_def capital_alpha_sigma_def capital_sigma_def
      small_alpha_final_sigma_def small_sigma_def leaf_def Let_def str_includes_def sublist_code)

section \<open>The reload control between two nav states\<close>

text \<open>
  The mode that \<^verbatim>\<open>applyNavState\<close> leaves on the reload control stays until the next nav
  state: no listener other than the start-up one, and no inbound message of another type,
  touches the control (\<open>fire_keeps_reload_control\<close>, \<open>receive_keeps_reload_control\<close>). So the
  click of C6 sends according to the last nav state applied.
\<close>

lemma navReload_send: "navReload (elements (world_of (send t p w))) = navReload (elements w)"
  by (simp add: send_def Let_def try_catch_def postMessage_def console_warn_def console_error_def
      warn_template_def error_template_def split: option.splits sum.splits)

lemma navReload_and_then:
  assumes "navReload (elements (world_of r)) = navReload (elements w)"
    and "\<And>w'. navReload (elements (world_of (f w'))) = navReload (elements w')"
  shows "navReload (elements (world_of (and_then r f))) = navReload (elements w)"
  using assms by (cases r) (simp_all add: and_then_def)

lemma navReload_syncCollapsedTabTitles:
  "navReload (elements (syncCollapsedTabTitles c w)) = navReload (elements w)"
  by (simp add: syncCollapsedTabTitles_def split: option.splits)

lemma navReload_applySidebarState:
  "navReload (elements (applySidebarState c w)) = navReload (elements w)"
  by (simp add: applySidebarState_def Let_def navReload_syncCollapsedTabTitles split: option.splits)

lemma navReload_closeTabMenu: "navReload (elements (closeTabMenu w)) = navReload (elements w)"
  by (simp add: closeTabMenu_def split: option.splits)

lemma navReload_closePalette: "navReload (elements (closePalette w)) = navReload (elements w)"
  by (simp add: closePalette_def)

lemma navReload_renderPaletteResults:
  "navReload (elements (snd (renderPaletteResults q w))) = navReload (elements w)"
  by (simp add: renderPaletteResults_def Let_def split: option.splits)

lemma navReload_openPalette: "navReload (elements (openPalette w)) = navReload (elements w)"
  by (simp add: openPalette_def Let_def navReload_renderPaletteResults split: option.splits)

lemma navReload_openTabMenu: "navReload (elements (openTabMenu i w)) = navReload (elements w)"
  by (simp add: openTabMenu_def Let_def closeTabMenu_def split: option.splits)

lemma navReload_renderTabs:
  "navReload (elements (world_of (renderTabs nodes w))) = navReload (elements w)"
  by (simp add: renderTabs_def Let_def navReload_syncCollapsedTabTitles
      split: option.splits prod.splits)

lemma navReload_setSidebarCollapsed:
  "navReload (elements (world_of (setSidebarCollapsed c w))) = navReload (elements w)"
  by (simp add: setSidebarCollapsed_def navReload_send navReload_applySidebarState)

lemma navReload_navigateFromAddress:
  "navReload (elements (world_of (navigateFromAddress w))) = navReload (elements w)"
  by (simp add: navigateFromAddress_def Let_def navReload_send split: option.splits)

lemma navReload_run: "navReload (elements (world_of (run cmd w))) = navReload (elements w)"
  by (cases cmd) (simp_all add: navReload_send navReload_setSidebarCollapsed)


lemma navReload_tabMenu_click:
  "navReload (elements (world_of (tabMenu_click button w))) = navReload (elements w)"
proof (cases "\<exists>action tabId. button = Some action \<and> menu_tabId (menuState w) = Some tabId")
  case False
  then show ?thesis
    by (auto simp: tabMenu_click_def split: option.splits)
next
  case True
  then obtain action tabId where b: "button = Some action" "menu_tabId (menuState w) = Some tabId"
    by blast
  have step: "navReload (elements (world_of (if c then send ty (id_payload tabId) w' else Returned w'))) =
      navReload (elements w')" for c ty w'
    by (simp add: navReload_send)
  show ?thesis
    unfolding tabMenu_click_def b prod.case option.case
    by (intro navReload_and_then step) (simp add: navReload_closeTabMenu)
qed

lemma navReload_palette_keydown:
  "navReload (elements (world_of (palette_keydown k w))) = navReload (elements w)"
proof (cases "paletteInput_value (elements w)")
  case None
  then show ?thesis by (simp add: palette_keydown_def)
next
  case (Some v)
  obtain results w1 where r: "renderPaletteResults v w = (results, w1)"
    by (cases "renderPaletteResults v w")
  have "navReload (elements (snd (renderPaletteResults v w))) = navReload (elements w)"
    by (rule navReload_renderPaletteResults)
  with r have w1: "navReload (elements w1) = navReload (elements w)" by simp
  have closing: "navReload (elements (world_of (and_then r' (\<lambda>w2. Returned (closePalette w2))))) =
      navReload (elements w')" if "navReload (elements (world_of r')) = navReload (elements w')" for r' w'
    using that by (rule navReload_and_then) (simp add: navReload_closePalette)
  show ?thesis
    unfolding palette_keydown_def Some option.case r prod.case Let_def
    using w1
    by (cases k)
       (simp_all add: closing navReload_run navReload_send navReload_renderPaletteResults
          navReload_closePalette)
qed

lemma navReload_window_keydown:
  "navReload (elements (window_keydown m k w)) = navReload (elements w)"
  by (simp add: window_keydown_def Let_def navReload_openPalette navReload_closePalette
      navReload_closeTabMenu split: key.splits)

lemma fire_keeps_reload_control:
  assumes "l \<noteq> DOMContentLoaded"
  shows "navReload (elements (world_of (fire l w))) = navReload (elements w)"
proof (cases l)
  case DOMContentLoaded
  with assms show ?thesis by simp
next
  case (TabSearchInput v)
  then show ?thesis
    by (simp add: Let_def filterStored_def navReload_renderTabs split: option.splits sum.splits)
next
  case (PaletteItemClick cmd)
  have "navReload (elements (world_of (and_then (run cmd w) (\<lambda>w1. Returned (closePalette w1))))) =
      navReload (elements w)"
    by (rule navReload_and_then) (simp_all add: navReload_run navReload_closePalette)
  with PaletteItemClick show ?thesis by simp
next
  case (RowKeydown i shiftKey k)
  then show ?thesis
    by (simp add: Let_def navReload_openTabMenu)
next
  case NavReloadClick
  then show ?thesis
    by (simp add: Let_def navReload_send split: option.splits)
qed (simp_all add: navReload_send navReload_setSidebarCollapsed navReload_navigateFromAddress
      navReload_tabMenu_click navReload_palette_keydown tabs_keydown_def Let_def
      navReload_window_keydown navReload_closePalette navReload_closeTabMenu navReload_openTabMenu
      navReload_renderPaletteResults)


lemma navReload_applyState:
  "navReload (elements (world_of (applyState pl w))) = navReload (elements w)"
proof (cases pl)
  case None
  then show ?thesis by (simp add: applyState_def)
next
  case (Some p)
  define w1 where "w1 = w\<lparr>state := (state w)\<lparr>activeTabId := active p, lastTabs := tabs p,
                                                lastActive := active p\<rparr>\<rparr>"
  have w1: "navReload (elements w1) = navReload (elements w)"
    by (simp add: w1_def)
  show ?thesis
  proof (cases "filterStored (toLowerCase w1) (lastTabs (state w1)) (tabQuery (state w1))")
    case (Inl e)
    then show ?thesis
      using w1 by (simp add: applyState_def Some Let_def w1_def [symmetric])
  next
    case (Inr filtered)
    have "navReload (elements (world_of (and_then (renderTabs filtered w1) (\<lambda>w2.
        (let w3 = closeTabMenu w2;
             activeNode =
               (if truthy_id (lastActive (state w3))
                then (case lastTabs (state w3) of
                        Some nodes \<Rightarrow> findActive nodes (the (lastActive (state w3)))
                      | None \<Rightarrow> None)
                else None)
         in Returned
              (case (activeNode, address_value (elements w3)) of
                 (Some node, Some old) \<Rightarrow>
                   w3\<lparr>elements := (elements w3)\<lparr>address_value := Some (url node)\<rparr>\<rparr>
               | _ \<Rightarrow> w3)))))) = navReload (elements w1)"
      by (rule navReload_and_then)
         (simp_all add: navReload_renderTabs navReload_closeTabMenu Let_def
            split: option.splits)
    then show ?thesis
      using w1 Inr by (simp add: applyState_def Some Let_def w1_def [symmetric])
  qed
qed

lemma navReload_applyAssets:
  "navReload (elements (applyAssets pl w)) = navReload (elements w)"
  by (simp add: applyAssets_def Let_def split: option.splits)

lemma navReload_favicon_forEach_body:
  "navReload (elements (favicon_forEach_body p i w)) = navReload (elements w)"
  by (simp add: favicon_forEach_body_def Let_def split: option.splits)

lemma navReload_fold_forEach:
  "navReload (elements (fold (favicon_forEach_body p) idl w)) = navReload (elements w)"
  by (induction idl arbitrary: w) (simp_all add: navReload_favicon_forEach_body)

lemma navReload_applyFaviconUpdate:
  "navReload (elements (world_of (applyFaviconUpdate pl w))) = navReload (elements w)"
  by (simp add: applyFaviconUpdate_def Let_def navReload_fold_forEach
      navReload_favicon_forEach_body split: option.splits list.splits)

lemma receive_keeps_reload_control:
  assumes "message = NoMessage \<or> msg_type message \<noteq> Some ''state.nav''"
  shows "navReload (elements (world_of (owl_receive message w))) = navReload (elements w)"
proof (cases message)
  case NoMessage
  then show ?thesis by (simp add: owl_receive_def)
next
  case (Envelope ty pl)
  with assms have "ty \<noteq> Some ''state.nav''" by simp
  then show ?thesis
    unfolding Envelope
    by (auto simp: owl_receive_def messageHandlers_def run_handler_def truthy_str_def
        object_prototype_get_def navReload_applyState navReload_applyAssets navReload_applyFaviconUpdate
        navReload_applySidebarState
        split: option.splits slot.splits handler.splits)
qed

end
